theory Spec2Isabelle
  imports Main
begin

section \<open>Accera GPU lowering: shared vocabulary\<close>

text \<open>
  The development embeds the rewrite patterns of
  \<^verbatim>\<open>accera/transforms/src/gpu/AcceraToGPUPass.cpp\<close> and the GPU index printers of
  \<^verbatim>\<open>accera/acc-translate/src/Target/Cpp/GpuDialectCppPrinter.cpp\<close>.

  A pattern's \<^verbatim>\<open>matchAndRewrite\<close> is a function from the matched operation to an
  outcome together with the list of rewriter calls it made, in program order. A pattern
  that does not return (a failed \<^verbatim>\<open>cast\<close>, a null attribute dereferenced, an empty
  \<^verbatim>\<open>std::optional\<close> read) has the outcome \<open>Aborts\<close>.
\<close>

datatype LogicalResult = success | failure

datatype outcome = Returns LogicalResult | Aborts string

datatype 'op action =
    create 'op
  | replaceOpWithNewOp 'op
  | eraseOp
  | setInsertionPoint
  | notifyMatchFailure string

section \<open>Pass selection\<close>

text \<open>
  \<^verbatim>\<open>accera::value::ExecutionRuntime\<close>. The switch of \<^verbatim>\<open>createAcceraToGPUPass\<close> names
  six enumerators; \<open>UnrecognizedRuntime\<close> stands for any other value of the underlying
  integer, which the \<^verbatim>\<open>default:\<close> label receives.
\<close>

datatype ExecutionRuntime =
  NONE | CUDA | ROCM | VULKAN | OPENMP | DEFAULT | UnrecognizedRuntime int

datatype Pass = AcceraToSPIRVPass | AcceraToNVVMPass | AcceraToROCDLPass

definition createAcceraToSPIRVPass :: "Pass option" where
  "createAcceraToSPIRVPass = Some AcceraToSPIRVPass"

definition createAcceraToNVVMPass :: "Pass option" where
  "createAcceraToNVVMPass = Some AcceraToNVVMPass"

definition createAcceraToROCDLPass :: "Pass option" where
  "createAcceraToROCDLPass = Some AcceraToROCDLPass"

text \<open>The null \<^verbatim>\<open>unique_ptr\<close> of the last branch is \<open>None\<close>.\<close>

fun createAcceraToGPUPass :: "ExecutionRuntime \<Rightarrow> Pass option" where
  "createAcceraToGPUPass DEFAULT = createAcceraToROCDLPass"
| "createAcceraToGPUPass ROCM = createAcceraToROCDLPass"
| "createAcceraToGPUPass CUDA = createAcceraToNVVMPass"
| "createAcceraToGPUPass VULKAN = createAcceraToSPIRVPass"
| "createAcceraToGPUPass NONE = None"
| "createAcceraToGPUPass OPENMP = None"
| "createAcceraToGPUPass (UnrecognizedRuntime v) = None"

section \<open>Barrier op selection\<close>

text \<open>
  \<^verbatim>\<open>vir::BarrierScope\<close>: the patterns name \<open>Block\<close>, \<open>Warp\<close> and \<open>Threadfence\<close>;
  \<open>UnknownScope\<close> is any other value of the enumeration, handled by \<^verbatim>\<open>default:\<close>.
\<close>

datatype BarrierScope = Block | Warp | Threadfence | UnknownScope int

datatype spirv_Scope = Workgroup | Subgroup

datatype spirv_MemorySemantics = AcquireRelease | SubgroupMemory

datatype AtomicOrdering = seq_cst

text \<open>
  The operations the two barrier conversions build. The memory-semantics bit mask
  \<^verbatim>\<open>AcquireRelease | SubgroupMemory\<close> is the set of its flags.
\<close>

datatype barrier_op =
    spirv_ControlBarrierOp spirv_Scope spirv_Scope "spirv_MemorySemantics set"
  | gpu_BarrierOp
  | LLVM_FenceOp AtomicOrdering string

fun ValueBarrierToSPIRVBarrierConversion ::
  "BarrierScope \<Rightarrow> outcome \<times> barrier_op action list" where
  "ValueBarrierToSPIRVBarrierConversion Block =
     (Returns success,
      [replaceOpWithNewOp (spirv_ControlBarrierOp Workgroup Workgroup {AcquireRelease})])"
| "ValueBarrierToSPIRVBarrierConversion Warp =
     (Returns success,
      [replaceOpWithNewOp
         (spirv_ControlBarrierOp Subgroup Subgroup {AcquireRelease, SubgroupMemory})])"
| "ValueBarrierToSPIRVBarrierConversion _ =
     (Returns failure, [notifyMatchFailure ''Unhandled barrier scope.''])"

fun ValueBarrierToGPUBarrierConversion ::
  "BarrierScope \<Rightarrow> outcome \<times> barrier_op action list" where
  "ValueBarrierToGPUBarrierConversion Block =
     (Returns success, [replaceOpWithNewOp gpu_BarrierOp])"
| "ValueBarrierToGPUBarrierConversion Threadfence =
     (Returns success, [replaceOpWithNewOp (LLVM_FenceOp seq_cst ''agent'')])"
| "ValueBarrierToGPUBarrierConversion _ =
     (Returns failure, [notifyMatchFailure ''Unhandled barrier scope.''])"

section \<open>Matrix-fragment operations: data\<close>

datatype mlir_type =
  F16 | F32 | I32 | Index | VectorType int mlir_type | OtherType string

fun isF16 :: "mlir_type \<Rightarrow> bool" where
  "isF16 F16 = True"
| "isF16 _ = False"

fun isF32 :: "mlir_type \<Rightarrow> bool" where
  "isF32 F32 = True"
| "isF32 _ = False"

fun isaVectorType :: "mlir_type \<Rightarrow> bool" where
  "isaVectorType (VectorType n t) = True"
| "isaVectorType _ = False"

text \<open>
  \<^verbatim>\<open>MFMAMatrixType::Shape\<close>: the four shapes the compute pattern switches over;
  \<open>UnknownShape\<close> is any other value, received by \<^verbatim>\<open>default:\<close>.
\<close>

datatype Shape = T4x16x64 | T2x32x64 | T4x4x32 | T2x2x16 | UnknownShape int

text \<open>
  \<^verbatim>\<open>MFMAMatrixType\<close> is declared in \<^verbatim>\<open>ValueMFMAOp.h\<close>. The patterns read it
  only through its accessors, so the record holds what each accessor returns:
  \<^verbatim>\<open>getShapeType()\<close>, \<^verbatim>\<open>getElementType()\<close>, \<^verbatim>\<open>getOperand()\<close>, \<^verbatim>\<open>isValidShape()\<close>,
  \<^verbatim>\<open>getLeadingDim()\<close>, \<^verbatim>\<open>getThreadTileSize()\<close> and \<^verbatim>\<open>getNumBlocks()\<close>.
\<close>

record MFMAMatrixType =
  getShapeType :: Shape
  getElementType :: mlir_type
  getOperand :: string
  isValidShape :: bool
  getLeadingDim :: int
  getThreadTileSize :: int
  getNumBlocks :: int

text \<open>SSA values are named after the source variable that holds them.\<close>

type_synonym Value = string

subsection \<open>Affine expressions and maps\<close>

datatype AffineExpr =
    Dim nat
  | Sym nat
  | Cst int
  | Add AffineExpr AffineExpr
  | Mul AffineExpr AffineExpr
  | Mod AffineExpr AffineExpr
  | FloorDiv AffineExpr AffineExpr

record AffineMap =
  numDims :: nat
  numSymbols :: nat
  results :: "AffineExpr list"

definition getNumInputs :: "AffineMap \<Rightarrow> nat" where
  "getNumInputs m = numDims m + numSymbols m"

fun shiftSymbols :: "nat \<Rightarrow> AffineExpr \<Rightarrow> AffineExpr" where
  "shiftSymbols k (Dim i) = Dim i"
| "shiftSymbols k (Sym i) = Sym (i + k)"
| "shiftSymbols k (Cst c) = Cst c"
| "shiftSymbols k (Add a b) = Add (shiftSymbols k a) (shiftSymbols k b)"
| "shiftSymbols k (Mul a b) = Mul (shiftSymbols k a) (shiftSymbols k b)"
| "shiftSymbols k (Mod a b) = Mod (shiftSymbols k a) (shiftSymbols k b)"
| "shiftSymbols k (FloorDiv a b) = FloorDiv (shiftSymbols k a) (shiftSymbols k b)"

fun replaceDims :: "AffineExpr list \<Rightarrow> AffineExpr \<Rightarrow> AffineExpr" where
  "replaceDims rs (Dim i) = (if i < length rs then rs ! i else Dim i)"
| "replaceDims rs (Sym i) = Sym i"
| "replaceDims rs (Cst c) = Cst c"
| "replaceDims rs (Add a b) = Add (replaceDims rs a) (replaceDims rs b)"
| "replaceDims rs (Mul a b) = Mul (replaceDims rs a) (replaceDims rs b)"
| "replaceDims rs (Mod a b) = Mod (replaceDims rs a) (replaceDims rs b)"
| "replaceDims rs (FloorDiv a b) = FloorDiv (replaceDims rs a) (replaceDims rs b)"

text \<open>
  \<^verbatim>\<open>f.compose(g)\<close> of MLIR: the dimensions of \<open>f\<close> are replaced by the results of
  \<open>g\<close>, whose symbols are renumbered after those of \<open>f\<close>. A default-constructed
  \<^verbatim>\<open>AffineMap()\<close> is null (\<open>None\<close>); composing a null map, or maps whose dimension and
  result counts differ, does not return (\<open>None\<close>).
\<close>

definition compose :: "AffineMap option \<Rightarrow> AffineMap \<Rightarrow> AffineMap option" where
  "compose f g =
     (case f of
        None \<Rightarrow> None
      | Some f' \<Rightarrow>
          if numDims f' = length (results g)
          then Some \<lparr> numDims = numDims g,
                      numSymbols = numSymbols f' + numSymbols g,
                      results = map (replaceDims (map (shiftSymbols (numSymbols f')) (results g)))
                                    (results f') \<rparr>
          else None)"

text \<open>
  C++ division of two \<^verbatim>\<open>int64_t\<close> truncates toward zero and is undefined for a zero
  divisor (\<open>None\<close>). The integers of the model are unbounded: its products are those
  of the code as long as the code's stay within 64 bits; beyond that the code overflows
  and the model does not follow it.
\<close>

definition cpp_div :: "int \<Rightarrow> int \<Rightarrow> int option" where
  "cpp_div a b = (if b = 0 then None else Some (sgn a * sgn b * (\<bar>a\<bar> div \<bar>b\<bar>)))"

definition GetRowColOffsetForCLoadStore ::
  "int \<Rightarrow> int \<Rightarrow> (AffineExpr \<times> AffineExpr) option" where
  "GetRowColOffsetForCLoadStore warpSize leadingDim =
     (let subGroupSize = 4;
          iElem = Sym 0;
          threadIdxX = Sym 1;
          threadIdxY = Sym 2;
          blockDimX = Sym 3;
          blockTid = Add (Mul threadIdxY blockDimX) threadIdxX;
          warpTid = Mod blockTid (Cst warpSize);
          m = Mod warpTid (Cst leadingDim);
          ks = FloorDiv warpTid (Cst leadingDim)
      in case cpp_div warpSize leadingDim of
           None \<Rightarrow> None
         | Some warpStride \<Rightarrow>
             (let rowsPerSet = warpStride * subGroupSize
              in case cpp_div leadingDim rowsPerSet of
                   None \<Rightarrow> None
                 | Some setsPerCol \<Rightarrow>
                     (let itemGroup = FloorDiv iElem (Cst subGroupSize);
                          itemOffset = Mod iElem (Cst subGroupSize);
                          itemGroupRowOffset = Mul (Mod itemGroup (Cst setsPerCol)) (Cst rowsPerSet);
                          itemGroupColOffset = Mul (FloorDiv itemGroup (Cst setsPerCol)) (Cst leadingDim)
                      in Some (Add (Add (Mul ks (Cst subGroupSize)) itemGroupRowOffset) itemOffset,
                               Add m itemGroupColOffset))))"

subsection \<open>Operations the fragment patterns build\<close>

datatype Attribute = ZeroAttr | IntegerAttr int

datatype mfma_intrinsic =
    mfma_f32_16x16x4f16 | mfma_f32_32x32x4f16 | mfma_f32_32x32x8f16 | mfma_f32_16x16x16f16
  | mfma_f32_16x16x1f32 | mfma_f32_32x32x1f32 | mfma_f32_32x32x2f32 | mfma_f32_16x16x4f32

text \<open>
  Each built operation is paired with the name of the variable that receives its result.
  \<open>AffineForOp lb ub step iterArgs body\<close>; its induction variable and region iteration
  arguments are the values \<open>name.iv\<close> and \<open>name.argN\<close>. \<open>MultiDimAffineApply\<close> is the
  helper of \<^verbatim>\<open>IRUtil.h\<close> that applies every result of a map to the operands.
\<close>

datatype mlir_op =
    ConstantIndexOp int
  | ConstantOp mlir_type Attribute
  | gpu_ThreadIdOp string
  | gpu_BlockDimOp string
  | vector_BroadcastOp mlir_type Value
  | AffineForOp int int int "Value list" "(string \<times> mlir_op) list"
  | IndexCastOp Value mlir_type
  | AddIOp Value Value
  | MultiDimAffineApply AffineMap "Value list"
  | memref_LoadOp Value Value
  | memref_StoreOp Value Value Value
  | FPExtOp Value mlir_type
  | FPTruncOp Value mlir_type
  | vector_InsertElementOp Value Value Value
  | vector_ExtractElementOp Value Value
  | AffineYieldOp "Value list"
  | ROCDL_mfma mfma_intrinsic mlir_type "Value list"
  | gpu_SubgroupMmaComputeOp mlir_type "Value list"

type_synonym built = "string \<times> mlir_op"

record MFMALoadOp =
  loadMatrixType :: MFMAMatrixType
  loadWarpSize :: "(int \<times> int) option"
  loadMemref :: Value
  loadAffineMap :: AffineMap
  loadIndices :: "Value list"

record MFMAStoreOp =
  storeMatrixType :: MFMAMatrixType
  storeWarpSize :: "(int \<times> int) option"
  storeValue :: Value
  storeValueType :: mlir_type
  storeMemref :: Value
  storeAffineMap :: AffineMap
  storeIndices :: "Value list"

record MFMAConstantOp =
  constantMatrixType :: MFMAMatrixType
  constantValue :: Value

record MFMAComputeOp =
  computeMatrixType :: MFMAMatrixType
  opA :: Value
  opAType :: mlir_type
  opB :: Value
  opBType :: mlir_type
  opC :: Value
  opCType :: mlir_type
  cbsz :: int
  abid :: int
  blgp :: int

section \<open>Fragment patterns of the CUDA (NVVM) pipeline\<close>

definition ValueMFMAStoreOpToGPUConversion :: "MFMAStoreOp \<Rightarrow> outcome \<times> built action list" where
  "ValueMFMAStoreOpToGPUConversion op = (Returns success, [])"

definition ValueMFMALoadOpToGPUConversion :: "MFMALoadOp \<Rightarrow> outcome \<times> built action list" where
  "ValueMFMALoadOpToGPUConversion op = (Returns success, [eraseOp])"

definition ValueMFMAConstantOpToGPUConversion ::
  "MFMAConstantOp \<Rightarrow> outcome \<times> built action list" where
  "ValueMFMAConstantOpToGPUConversion op = (Returns success, [eraseOp])"

text \<open>
  The replacement takes the type of \<^verbatim>\<open>operands[2]\<close>, the accumulator, and all three
  operands.
\<close>

definition ValueMFMAComputeToGPUConversion ::
  "MFMAComputeOp \<Rightarrow> outcome \<times> built action list" where
  "ValueMFMAComputeToGPUConversion op =
     (Returns success,
      [replaceOpWithNewOp
         (''mma'', gpu_SubgroupMmaComputeOp (opCType op) [opA op, opB op, opC op])])"

section \<open>Fragment patterns of the ROCm (ROCDL) pipeline\<close>

text \<open>
  The operands of the composed map: the first \<^verbatim>\<open>getNumDims()\<close> indices, the four
  values built in between, then the remaining indices. \<^verbatim>\<open>indices[i]\<close> beyond the
  operand range does not return.
\<close>

definition builtMapOperands :: "built list" where
  "builtMapOperands =
     [(''c0'', ConstantIndexOp 0),
      (''threadIdx.x'', gpu_ThreadIdOp ''x''),
      (''threadIdx.y'', gpu_ThreadIdOp ''y''),
      (''blockDim.x'', gpu_BlockDimOp ''x'')]"

definition mapOperandsOf :: "AffineMap \<Rightarrow> Value list \<Rightarrow> Value list" where
  "mapOperandsOf m indices =
     take (numDims m) indices @ map fst builtMapOperands
       @ drop (numDims m) (take (getNumInputs m) indices)"

text \<open>
  The layout map of a load, with the vector size and the element type of the loaded
  vector. The outer \<open>None\<close> is a division by zero; the inner \<open>None\<close> is the null map of
  the \<^verbatim>\<open>.Default\<close> case.
\<close>

definition loadLayout ::
  "MFMAMatrixType \<Rightarrow> int \<Rightarrow> (AffineMap option \<times> int \<times> mlir_type) option" where
  "loadLayout mfmaMatrixType warpSize =
     (let leadingDim = getLeadingDim mfmaMatrixType;
          vecSize = getThreadTileSize mfmaMatrixType;
          elementType = getElementType mfmaMatrixType;
          d0 = Dim 0;
          d1 = Dim 1
      in if getOperand mfmaMatrixType = ''COp'' then
           (case cpp_div leadingDim (getNumBlocks mfmaMatrixType) of
              None \<Rightarrow> None
            | Some ld \<Rightarrow>
                (case GetRowColOffsetForCLoadStore warpSize ld of
                   None \<Rightarrow> None
                 | Some (rowOff, colOff) \<Rightarrow>
                     (case cpp_div vecSize (getNumBlocks mfmaMatrixType) of
                        None \<Rightarrow> None
                      | Some vecSize' \<Rightarrow>
                          Some (Some \<lparr> numDims = 2, numSymbols = 4,
                                        results = [Add d0 rowOff, Add d1 colOff] \<rparr>,
                                vecSize',
                                if isF16 elementType then F32 else elementType))))
         else
           (let iElem = Sym 0;
                threadIdxX = Sym 0;
                threadIdxY = Sym 1;
                blockDimX = Sym 2;
                blockTid = Add threadIdxX (Mul threadIdxY blockDimX);
                warpTid = Mod blockTid (Cst warpSize);
                m = Mod warpTid (Cst leadingDim);
                ks = FloorDiv warpTid (Cst leadingDim)
            in case cpp_div warpSize leadingDim of
                 None \<Rightarrow> None
               | Some warpStride \<Rightarrow>
                   (let offsetAOpMap = \<lparr> numDims = 2, numSymbols = 3,
                                           results = [Add d0 m, Add d1 ks] \<rparr>;
                        strideAOpMap = \<lparr> numDims = 2, numSymbols = 1,
                                           results = [d0, Add d1 (Mul iElem (Cst warpStride))] \<rparr>;
                        offsetBOpMap = \<lparr> numDims = 2, numSymbols = 3,
                                           results = [Add d0 ks, Add d1 m] \<rparr>;
                        strideBOpMap = \<lparr> numDims = 2, numSymbols = 1,
                                           results = [Add d0 (Mul iElem (Cst warpStride)), d1] \<rparr>
                    in Some (if getOperand mfmaMatrixType = ''AOp''
                               then compose (Some strideAOpMap) offsetAOpMap
                             else if getOperand mfmaMatrixType = ''BOp''
                               then compose (Some strideBOpMap) offsetBOpMap
                             else None,
                             vecSize, elementType))))"

definition loadLoopBody ::
  "MFMALoadOp \<Rightarrow> AffineMap \<Rightarrow> mlir_type \<Rightarrow> built list" where
  "loadLoopBody op composedMap elementType =
     [(''laneIndex'', IndexCastOp ''loop.iv'' I32),
      (''mappedOperands'',
         MultiDimAffineApply composedMap
           (list_update (mapOperandsOf (loadAffineMap op) (loadIndices op))
              (numDims (loadAffineMap op)) ''loop.iv'')),
      (''load'', memref_LoadOp (loadMemref op) ''mappedOperands'')]
     @ (if isF32 elementType \<and> isF16 (getElementType (loadMatrixType op))
        then [(''castedElem'', FPExtOp ''load'' F32),
              (''vec'', vector_InsertElementOp ''castedElem'' ''loop.arg0'' ''laneIndex'')]
        else [(''vec'', vector_InsertElementOp ''load'' ''loop.arg0'' ''laneIndex'')])
     @ [(''yield'', AffineYieldOp [''vec''])]"

definition ValueMFMALoadOpToRocDLConversion ::
  "MFMALoadOp \<Rightarrow> outcome \<times> built action list" where
  "ValueMFMALoadOpToRocDLConversion op =
     (if \<not> isValidShape (loadMatrixType op)
      then (Returns failure, [notifyMatchFailure ''unhandled matrix shape''])
      else case loadWarpSize op of
        None \<Rightarrow> (Aborts ''ResolveWarpSize(op).value() on an empty optional'', [setInsertionPoint])
      | Some (warpSizeX, warpSizeY) \<Rightarrow>
         (case loadLayout (loadMatrixType op) (warpSizeX * warpSizeY) of
            None \<Rightarrow> (Aborts ''integer division by zero'', [setInsertionPoint])
          | Some (matrixLayoutMap, vecSize, elementType) \<Rightarrow>
             (case compose matrixLayoutMap (loadAffineMap op) of
                None \<Rightarrow> (Aborts ''AffineMap::compose on a null or mismatched map'',
                            [setInsertionPoint])
              | Some composedMap \<Rightarrow>
                  if length (loadIndices op) < numDims (loadAffineMap op)
                  then (Aborts ''indices[i] out of range'', [setInsertionPoint])
                  else if length (loadIndices op) < getNumInputs (loadAffineMap op)
                  then (Aborts ''indices[i] out of range'',
                        setInsertionPoint # map create builtMapOperands)
                  else
                    (Returns success,
                     setInsertionPoint # map create builtMapOperands
                     @ [create (''zero'', ConstantOp elementType ZeroAttr),
                        create (''vec'', vector_BroadcastOp (VectorType vecSize elementType) ''zero''),
                        replaceOpWithNewOp
                          (''loop'', AffineForOp 0 vecSize 1 [''vec'']
                                       (loadLoopBody op composedMap elementType))]))))"

text \<open>
  The store loop has no iteration arguments, so MLIR gives its body the terminator; the
  list holds the operations the pattern itself builds. \<open>storeLoopPrefix\<close> is the body up
  to the element extraction, \<open>storeLoopBody\<close> the whole body, \<open>None\<close> when the
  \<^verbatim>\<open>cast<VectorType>\<close> of the stored value's type does not return.
\<close>

definition storeLoopPrefix :: "MFMAStoreOp \<Rightarrow> AffineMap \<Rightarrow> built list" where
  "storeLoopPrefix op composedMap =
     [(''laneIndex'', IndexCastOp ''loop.iv'' I32),
      (''mappedOperands'',
         MultiDimAffineApply composedMap
           (list_update (mapOperandsOf (storeAffineMap op) (storeIndices op))
              (numDims (storeAffineMap op)) ''loop.iv'')),
      (''elem'', vector_ExtractElementOp (storeValue op) ''laneIndex'')]"

definition storeLoopBody :: "MFMAStoreOp \<Rightarrow> AffineMap \<Rightarrow> built list option" where
  "storeLoopBody op composedMap =
     (case storeValueType op of
        VectorType n valueElementType \<Rightarrow>
          Some (storeLoopPrefix op composedMap @
            (if isF32 valueElementType \<and> isF16 (getElementType (storeMatrixType op))
             then [(''castedElem'', FPTruncOp ''elem'' (getElementType (storeMatrixType op))),
                   (''store'', memref_StoreOp ''castedElem'' (storeMemref op) ''mappedOperands'')]
             else [(''store'', memref_StoreOp ''elem'' (storeMemref op) ''mappedOperands'')]))
      | _ \<Rightarrow> None)"

definition ValueMFMAStoreOpToRocDLConversion ::
  "MFMAStoreOp \<Rightarrow> outcome \<times> built action list" where
  "ValueMFMAStoreOpToRocDLConversion op =
     (let mfmaMatrixType = storeMatrixType op in
      if \<not> isValidShape mfmaMatrixType
      then (Returns failure, [notifyMatchFailure ''unhandled matrix shape''])
      else case storeWarpSize op of
        None \<Rightarrow> (Aborts ''ResolveWarpSize(op).value() on an empty optional'', [])
      | Some (warpSizeX, warpSizeY) \<Rightarrow>
         (case cpp_div (getThreadTileSize mfmaMatrixType) (getNumBlocks mfmaMatrixType) of
            None \<Rightarrow> (Aborts ''integer division by zero'', [])
          | Some vecSize \<Rightarrow>
             (case cpp_div (getLeadingDim mfmaMatrixType) (getNumBlocks mfmaMatrixType) of
                None \<Rightarrow> (Aborts ''integer division by zero'', [])
              | Some ld \<Rightarrow>
                 (case GetRowColOffsetForCLoadStore (warpSizeX * warpSizeY) ld of
                    None \<Rightarrow> (Aborts ''integer division by zero'', [])
                  | Some (rowOff, colOff) \<Rightarrow>
                     (case compose (Some \<lparr> numDims = 2, numSymbols = 4,
                                            results = [Add (Dim 0) rowOff, Add (Dim 1) colOff] \<rparr>)
                                   (storeAffineMap op) of
                        None \<Rightarrow> (Aborts ''AffineMap::compose on a mismatched map'', [])
                      | Some composedMap \<Rightarrow>
                          if length (storeIndices op) < numDims (storeAffineMap op)
                          then (Aborts ''indices[i] out of range'', [])
                          else if length (storeIndices op) < getNumInputs (storeAffineMap op)
                          then (Aborts ''indices[i] out of range'', map create builtMapOperands)
                          else
                            (case storeLoopBody op composedMap of
                               None \<Rightarrow>
                                 (Aborts ''cast<VectorType> of a non-vector value'',
                                  map create builtMapOperands
                                  @ [replaceOpWithNewOp
                                       (''loop'', AffineForOp 0 vecSize 1 []
                                                    (storeLoopPrefix op composedMap))])
                             | Some body \<Rightarrow>
                                 (Returns success,
                                  map create builtMapOperands
                                  @ [replaceOpWithNewOp
                                       (''loop'', AffineForOp 0 vecSize 1 [] body)])))))))"

definition ValueMFMAConstantOpToRocDLConversion ::
  "MFMAConstantOp \<Rightarrow> outcome \<times> built action list" where
  "ValueMFMAConstantOpToRocDLConversion op =
     (let mfmaMatrixType = constantMatrixType op in
      if \<not> isValidShape mfmaMatrixType
      then (Returns failure, [notifyMatchFailure ''unhandled matrix shape''])
      else (Returns success,
            [replaceOpWithNewOp
               (''broadcast'',
                vector_BroadcastOp
                  (VectorType (getThreadTileSize mfmaMatrixType) (getElementType mfmaMatrixType))
                  (constantValue op))]))"

subsection \<open>The compute pattern\<close>

text \<open>
  The inner loop that gathers four contiguous elements of each input, built for 16-bit
  inputs only.
\<close>

definition loadABLoop :: "MFMAComputeOp \<Rightarrow> int \<Rightarrow> built" where
  "loadABLoop op passIncrements =
     (''loadAB'',
      AffineForOp 0 passIncrements 1 [opA op, opB op, ''vecA'', ''vecB'']
        [(''iElem'', IndexCastOp ''loadAB.iv'' I32),
         (''pos'', AddIOp ''iElem'' ''laneIndex''),
         (''elemA'', vector_ExtractElementOp ''loadAB.arg0'' ''pos''),
         (''vecA'', vector_InsertElementOp ''elemA'' ''loadAB.arg2'' ''iElem''),
         (''elemB'', vector_ExtractElementOp ''loadAB.arg1'' ''pos''),
         (''vecB'', vector_InsertElementOp ''elemB'' ''loadAB.arg3'' ''iElem''),
         (''yield'', AffineYieldOp [opA op, opB op, ''vecA'', ''vecB''])])"

fun mfmaF16 :: "Shape \<Rightarrow> mfma_intrinsic option" where
  "mfmaF16 T4x16x64 = Some mfma_f32_16x16x4f16"
| "mfmaF16 T2x32x64 = Some mfma_f32_32x32x4f16"
| "mfmaF16 T4x4x32 = Some mfma_f32_32x32x8f16"
| "mfmaF16 T2x2x16 = Some mfma_f32_16x16x16f16"
| "mfmaF16 (UnknownShape v) = None"

fun mfmaF32 :: "Shape \<Rightarrow> mfma_intrinsic option" where
  "mfmaF32 T4x16x64 = Some mfma_f32_16x16x1f32"
| "mfmaF32 T2x32x64 = Some mfma_f32_32x32x1f32"
| "mfmaF32 T4x4x32 = Some mfma_f32_32x32x2f32"
| "mfmaF32 T2x2x16 = Some mfma_f32_16x16x4f32"
| "mfmaF32 (UnknownShape v) = None"

text \<open>
  The body of the outer loop and the result of the pattern. The loop replaces the
  operation before its body is filled, so a \<^verbatim>\<open>return failure()\<close> from inside the
  shape switch leaves the loop with the operations built up to that point.
\<close>

definition computeLoopBody :: "MFMAComputeOp \<Rightarrow> LogicalResult \<times> built list" where
  "computeLoopBody op =
     (let inputType = (case opAType op of VectorType n t \<Rightarrow> t | t \<Rightarrow> t);
          passIncrements = (if isF16 inputType then 4 else 1);
          laneIndex = (''laneIndex'', IndexCastOp ''loop.iv'' I32)
      in if isF16 inputType then
           (let gather =
                  [laneIndex,
                   (''zero'', ConstantOp inputType ZeroAttr),
                   (''vecA'', vector_BroadcastOp (VectorType passIncrements inputType) ''zero''),
                   (''vecB'', vector_BroadcastOp (VectorType passIncrements inputType) ''zero''),
                   loadABLoop op passIncrements]
            in case mfmaF16 (getShapeType (computeMatrixType op)) of
                 Some intrinsic \<Rightarrow>
                   (success,
                    gather @
                    [(''mfma'', ROCDL_mfma intrinsic (opCType op)
                                  [''loadAB.result2'', ''loadAB.result3'', ''loop.arg0'',
                                   ''cbsz'', ''abid'', ''blgp'']),
                     (''yield'', AffineYieldOp [''mfma''])])
               | None \<Rightarrow> (failure, gather))
         else if isF32 inputType then
           (let extract =
                  [laneIndex,
                   (''elemA'', vector_ExtractElementOp (opA op) ''laneIndex''),
                   (''elemB'', vector_ExtractElementOp (opB op) ''laneIndex'')]
            in case mfmaF32 (getShapeType (computeMatrixType op)) of
                 Some intrinsic \<Rightarrow>
                   (success,
                    extract @
                    [(''mfma'', ROCDL_mfma intrinsic (opCType op)
                                  [''elemA'', ''elemB'', ''loop.arg0'',
                                   ''cbsz'', ''abid'', ''blgp'']),
                     (''yield'', AffineYieldOp [''mfma''])])
               | None \<Rightarrow> (failure, extract))
         else (failure, [laneIndex]))"

definition ValueMFMAComputeToRocDLConversion ::
  "MFMAComputeOp \<Rightarrow> outcome \<times> built action list" where
  "ValueMFMAComputeToRocDLConversion op =
     (let constants =
            [create (''cbsz'', ConstantOp I32 (IntegerAttr (cbsz op))),
             create (''abid'', ConstantOp I32 (IntegerAttr (abid op))),
             create (''blgp'', ConstantOp I32 (IntegerAttr (blgp op)))]
      in case opAType op of
           VectorType n inputType \<Rightarrow>
             if \<not> isaVectorType (opBType op)
             then (Returns failure,
                   constants @ [notifyMatchFailure ''expecting a vector type for OpB''])
             else if \<not> isaVectorType (opCType op)
             then (Returns failure,
                   constants @ [notifyMatchFailure ''expecting a vector type for OpC''])
             else
               (let threadTileSize = getThreadTileSize (computeMatrixType op);
                    passIncrements = (if isF16 inputType then 4 else 1)
                in (Returns (fst (computeLoopBody op)),
                    constants @
                    [setInsertionPoint,
                     replaceOpWithNewOp
                       (''loop'', AffineForOp 0 threadTileSize passIncrements [opC op]
                                    (snd (computeLoopBody op)))]))
         | _ \<Rightarrow> (Aborts ''cast<VectorType> of a non-vector OpA'', constants))"

subsection \<open>Reading the loop a pattern built\<close>

text \<open>
  An \<^verbatim>\<open>affine.for\<close> from \<open>lb\<close> to \<open>ub\<close> (exclusive) by a positive \<open>step\<close> runs its body
  once for each of these values of the induction variable.
\<close>

function inductionValues :: "int \<Rightarrow> int \<Rightarrow> int \<Rightarrow> int list" where
  "inductionValues lb ub step =
     (if 0 < step \<and> lb < ub then lb # inductionValues (lb + step) ub step else [])"
  by pat_completeness auto
termination
  by (relation "measure (\<lambda>(lb, ub, step). nat (ub - lb))") auto

declare inductionValues.simps [simp del]

definition tripCount :: "mlir_op \<Rightarrow> nat" where
  "tripCount l = (case l of AffineForOp lb ub step it body \<Rightarrow> length (inductionValues lb ub step)
                          | _ \<Rightarrow> 0)"

text \<open>The loop by which a pattern replaced the operation, if it did.\<close>

fun replacementLoop :: "built action list \<Rightarrow> mlir_op option" where
  "replacementLoop [] = None"
| "replacementLoop (replaceOpWithNewOp (n, AffineForOp lb ub step it body) # as) =
     Some (AffineForOp lb ub step it body)"
| "replacementLoop (a # as) = replacementLoop as"

fun loopBody :: "mlir_op \<Rightarrow> built list" where
  "loopBody (AffineForOp lb ub step it body) = body"
| "loopBody _ = []"

definition builtLoopBody :: "built action list \<Rightarrow> built list" where
  "builtLoopBody acts = (case replacementLoop acts of Some l \<Rightarrow> loopBody l | None \<Rightarrow> [])"

text \<open>The compute intrinsics one execution of a body invokes, a nested loop's included.\<close>

fun intrinsicsOf :: "mlir_op \<Rightarrow> mfma_intrinsic list" where
  "intrinsicsOf (ROCDL_mfma i t vs) = [i]"
| "intrinsicsOf (AffineForOp lb ub step it body) = concat (map (\<lambda>b. intrinsicsOf (snd b)) body)"
| "intrinsicsOf _ = []"

definition bodyIntrinsics :: "built list \<Rightarrow> mfma_intrinsic list" where
  "bodyIntrinsics body = concat (map (\<lambda>b. intrinsicsOf (snd b)) body)"

fun isConversion :: "built \<Rightarrow> bool" where
  "isConversion (n, FPExtOp v t) = True"
| "isConversion (n, FPTruncOp v t) = True"
| "isConversion _ = False"

subsection \<open>Example operations\<close>

text \<open>
  A 32x32 tile over a 64-lane warp, sixteen elements a lane, addressed by the identity
  map.
\<close>

definition exampleMatrixType :: "string \<Rightarrow> mlir_type \<Rightarrow> MFMAMatrixType" where
  "exampleMatrixType role t =
     \<lparr> getShapeType = T2x32x64, getElementType = t, getOperand = role, isValidShape = True,
       getLeadingDim = 32, getThreadTileSize = 16, getNumBlocks = 1 \<rparr>"

definition identityMap :: AffineMap where
  "identityMap = \<lparr> numDims = 2, numSymbols = 0, results = [Dim 0, Dim 1] \<rparr>"

definition exampleLoad :: "string \<Rightarrow> mlir_type \<Rightarrow> MFMALoadOp" where
  "exampleLoad role t =
     \<lparr> loadMatrixType = exampleMatrixType role t, loadWarpSize = Some (64, 1),
       loadMemref = ''memref'', loadAffineMap = identityMap, loadIndices = [''i'', ''j''] \<rparr>"

definition exampleStore :: "mlir_type \<Rightarrow> mlir_type \<Rightarrow> MFMAStoreOp" where
  "exampleStore t valueType =
     \<lparr> storeMatrixType = exampleMatrixType ''COp'' t, storeWarpSize = Some (64, 1),
       storeValue = ''value'', storeValueType = valueType, storeMemref = ''memref'',
       storeAffineMap = identityMap, storeIndices = [''i'', ''j''] \<rparr>"

definition exampleCompute :: "Shape \<Rightarrow> mlir_type \<Rightarrow> MFMAComputeOp" where
  "exampleCompute sh t =
     \<lparr> computeMatrixType = (exampleMatrixType ''COp'' t)\<lparr> getShapeType := sh \<rparr>,
       opA = ''a'', opAType = VectorType 16 t,
       opB = ''b'', opBType = VectorType 16 t,
       opC = ''c'', opCType = VectorType 16 F32,
       cbsz = 0, abid = 0, blgp = 0 \<rparr>"

section \<open>Thread-index and block-dimension queries\<close>

fun dimIndexToInteger :: "string \<Rightarrow> int" where
  "dimIndexToInteger dim =
     (if dim = ''x'' then 0 else if dim = ''y'' then 1 else if dim = ''z'' then 2 else - 1)"

text \<open>
  The attributes the queries read from the enclosing function: \<open>None\<close> when the function
  has no array attribute of that name, otherwise the values of its integer elements.
\<close>

record FuncAttrs =
  gridSize :: "int list option"
  blockSize :: "int list option"

text \<open>
  A query operation with its axis string and the enclosing functions the two lowerings
  look for: the printer asks for \<^verbatim>\<open>getParentOfType<FuncOp>()\<close>, the rewrite pattern for
  \<^verbatim>\<open>getParentOfType<gpu::GPUFuncOp>()\<close>.
\<close>

record GpuIndexOp =
  dimension :: string
  parentFuncOp :: "FuncAttrs option"
  parentGPUFuncOp :: "FuncAttrs option"

text \<open>The conversion of an \<^verbatim>\<open>int64_t\<close> to the \<^verbatim>\<open>uint64_t\<close> the printer's helpers return.\<close>

definition to_uint64 :: "int \<Rightarrow> nat" where
  "to_uint64 v = nat (v mod 2 ^ 64)"

text \<open>
  \<^verbatim>\<open>getBlockDim\<close> of the printer. The outer \<open>None\<close>: \<^verbatim>\<open>arrayAttr[idx]\<close> beyond the end of
  the vector, which does not return.
\<close>

definition getBlockDim :: "GpuIndexOp \<Rightarrow> string \<Rightarrow> nat option option" where
  "getBlockDim op dim =
     (case parentFuncOp op of
        Some fn \<Rightarrow>
          (case blockSize fn of
             None \<Rightarrow> Some None
           | Some arrayAttr \<Rightarrow>
               (let idx = dimIndexToInteger dim
                in if idx = - 1 then Some None
                   else if nat idx < length arrayAttr
                   then Some (Some (to_uint64 (arrayAttr ! nat idx)))
                   else None))
      | None \<Rightarrow> Some None)"

text \<open>What is written to the output stream: text, or an unsigned number in decimal.\<close>

datatype out = Str string | UInt nat

text \<open>
  The printer's surroundings are parameters: whether the state has the CUDA runtime, the
  name the SSA name state returns for a prefix, and what \<^verbatim>\<open>printIndexType\<close> returns and
  writes. A result is the outcome, the output written and the errors emitted.
\<close>

record PrinterEnv =
  hasRuntimeCUDA :: bool
  getOrCreateName :: "string \<Rightarrow> string"
  printIndexType :: "LogicalResult \<times> out list"

definition printGPUIndexType :: "PrinterEnv \<Rightarrow> LogicalResult \<times> out list" where
  "printGPUIndexType env = (fst (printIndexType env), Str ''const '' # snd (printIndexType env))"

definition printOp_ThreadIdOp ::
  "PrinterEnv \<Rightarrow> GpuIndexOp \<Rightarrow> outcome \<times> out list \<times> string list" where
  "printOp_ThreadIdOp env tidOp =
     (if \<not> hasRuntimeCUDA env
      then (Returns failure, [], [''non-cuda version is not supported yet''])
      else
        (let varPrefix = ''threadIdx_'' @ dimension tidOp @ ''_'';
             idx = getOrCreateName env varPrefix
         in if fst (printGPUIndexType env) = failure
            then (Returns failure, snd (printGPUIndexType env), [])
            else
              (let os = snd (printGPUIndexType env) @ [Str '' '', Str idx, Str '' = '']
               in case getBlockDim tidOp (dimension tidOp) of
                    None \<Rightarrow> (Aborts ''arrayAttr[idx] out of range'', os, [])
                  | Some (Some c) \<Rightarrow>
                      (Returns success,
                       os @ [Str ''(threadIdx.'', Str (dimension tidOp), Str ''%'', UInt c,
                             Str '')''],
                       [])
                  | Some None \<Rightarrow>
                      (Returns success, os @ [Str ''threadIdx.'', Str (dimension tidOp)], []))))"

definition printOp_BlockDimOp ::
  "PrinterEnv \<Rightarrow> GpuIndexOp \<Rightarrow> outcome \<times> out list \<times> string list" where
  "printOp_BlockDimOp env blockDimOp =
     (if \<not> hasRuntimeCUDA env
      then (Returns failure, [], [''non-cuda version is not supported yet''])
      else
        (let varPrefix = ''blockDim_'' @ dimension blockDimOp @ ''_'';
             idx = getOrCreateName env varPrefix
         in if fst (printGPUIndexType env) = failure
            then (Returns failure, snd (printGPUIndexType env), [])
            else
              (let os = snd (printGPUIndexType env) @ [Str '' '', Str idx, Str '' = '']
               in case getBlockDim blockDimOp (dimension blockDimOp) of
                    None \<Rightarrow> (Aborts ''arrayAttr[idx] out of range'', os, [])
                  | Some (Some c) \<Rightarrow> (Returns success, os @ [UInt c], [])
                  | Some None \<Rightarrow>
                      (Returns success,
                       os @ [Str ''blockDim.'', Str (dimension blockDimOp)], []))))"

text \<open>
  The rewrite pattern of the conversion pipelines. \<^verbatim>\<open>getValue()[blockDimIdx]\<close> beyond
  the end of the array does not return.
\<close>

definition ResolveBlockDimPattern :: "GpuIndexOp \<Rightarrow> outcome \<times> built action list" where
  "ResolveBlockDimPattern op =
     (case parentGPUFuncOp op of
        None \<Rightarrow> (Returns failure, [])
      | Some gpuFunc \<Rightarrow>
          (let blockDimIdx = dimIndexToInteger (dimension op)
           in case blockSize gpuFunc of
                None \<Rightarrow> (Returns failure, [])
              | Some blockSizeAttr \<Rightarrow>
                  if blockDimIdx = - 1 then (Returns failure, [])
                  else if nat blockDimIdx < length blockSizeAttr
                  then (Returns success,
                        [replaceOpWithNewOp
                           (''val'', ConstantIndexOp (blockSizeAttr ! nat blockDimIdx))])
                  else (Aborts ''blockSizeAttr.getValue()[blockDimIdx] out of range'', [])))"

definition exampleEnv :: PrinterEnv where
  "exampleEnv = \<lparr> hasRuntimeCUDA = True, getOrCreateName = (\<lambda>prefix. prefix @ ''0''),
                  printIndexType = (success, [Str ''int'']) \<rparr>"

section \<open>Device function and launcher pairing\<close>

datatype ExecutionTarget = CPU | GPU

datatype Attr =
  UnitAttr | ExecutionRuntimeAttr ExecutionRuntime | ExecutionTargetAttr ExecutionTarget
  | OtherAttr string

text \<open>
  Modelled from the spec: the pattern names four attributes through constants of headers
  that are not part of the sources at hand (\<^verbatim>\<open>ir::HeaderDeclAttrName\<close>,
  \<^verbatim>\<open>ir::RawPointerAPIAttrName\<close>, \<^verbatim>\<open>ValueModuleOp::getExecRuntimeAttrName()\<close>,
  \<^verbatim>\<open>ValueFuncOp::getExecTargetAttrName()\<close>). The specification lists them as four
  different attributes (header visibility, raw-pointer API, runtime, execution target),
  so they are four distinct names here; \<open>AttrName\<close> is any other attribute.
\<close>

datatype attr_name =
  HeaderDeclAttrName | RawPointerAPIAttrName | ExecRuntimeAttrName | ExecTargetAttrName
  | AttrName string

type_synonym attr_dict = "attr_name \<rightharpoonup> Attr"

definition hasAttr :: "attr_dict \<Rightarrow> attr_name \<Rightarrow> bool" where
  "hasAttr d n = (d n \<noteq> None)"

definition setAttr :: "attr_dict \<Rightarrow> attr_name \<Rightarrow> Attr \<Rightarrow> attr_dict" where
  "setAttr d n v = d(n \<mapsto> v)"

text \<open>
  The operations of a function's entry block that the pattern tells apart. A launch
  refers to its kernel by a nested symbol reference: the root (the GPU module) and the
  leaf (the kernel).
\<close>

datatype body_op =
    CallOp string
  | LaunchFuncOp string string
  | ReturnOp
  | OtherOp string

text \<open>\<open>func_front\<close> is the entry block with its terminator, \<open>None\<close> for a declaration.\<close>

record FuncOp =
  func_name :: string
  func_attrs :: attr_dict
  func_front :: "body_op list option"

record GPUFuncOp =
  gpu_func_name :: string
  gpu_func_attrs :: attr_dict

datatype gpu_module_symbol = GPUFuncOp_sym GPUFuncOp | Other_gpu_sym string

fun gpu_symbol_name :: "gpu_module_symbol \<Rightarrow> string" where
  "gpu_symbol_name (GPUFuncOp_sym g) = gpu_func_name g"
| "gpu_symbol_name (Other_gpu_sym n) = n"

record GPUModuleOp =
  gpu_module_name :: string
  gpu_module_body :: "gpu_module_symbol list"

datatype module_symbol = FuncOp_sym FuncOp | GPUModuleOp_sym GPUModuleOp | Other_sym string

fun symbol_name :: "module_symbol \<Rightarrow> string" where
  "symbol_name (FuncOp_sym f) = func_name f"
| "symbol_name (GPUModuleOp_sym g) = gpu_module_name g"
| "symbol_name (Other_sym n) = n"

text \<open>
  A symbol table is the list of the symbols of one operation; a lookup returns the
  position of the first symbol of that name.
\<close>

fun lookupSymbolIn :: "('a \<Rightarrow> string) \<Rightarrow> 'a list \<Rightarrow> string \<Rightarrow> nat option" where
  "lookupSymbolIn nm [] s = None"
| "lookupSymbolIn nm (x # xs) s =
     (if nm x = s then Some 0 else map_option Suc (lookupSymbolIn nm xs s))"

text \<open>
  The pattern with target runtime \<open>target\<close>, applied to the function at position \<open>i\<close> of
  the module \<open>m\<close>, the nearest symbol table of both the function and its callee. The
  module is returned as the rewrite leaves it. The pattern is a pattern on \<^verbatim>\<open>FuncOp\<close>: on
  any other position it does not apply, which is the result failure here. Reading the
  entry block of a declaration, or the operation before the terminator of a block that
  has none, does not return.
\<close>

definition CreateDeviceFuncLauncherPairPattern ::
  "ExecutionRuntime \<Rightarrow> module_symbol list \<Rightarrow> nat \<Rightarrow> outcome \<times> module_symbol list" where
  "CreateDeviceFuncLauncherPairPattern target m i =
     (if \<not> i < length m then (Returns failure, m) else
      case m ! i of
        FuncOp_sym op \<Rightarrow>
          if \<not> hasAttr (func_attrs op) HeaderDeclAttrName
             \<or> \<not> hasAttr (func_attrs op) RawPointerAPIAttrName
          then (Returns failure, m)
          else
            (case func_front op of
               None \<Rightarrow> (Aborts ''front() of a function without blocks'', m)
             | Some [] \<Rightarrow> (Aborts ''without_terminator() of an empty block'', m)
             | Some (b # bs) \<Rightarrow>
                 (case butlast (b # bs) of
                    [CallOp callee] \<Rightarrow>
                      (case lookupSymbolIn symbol_name m callee of
                         None \<Rightarrow> (Returns failure, m)
                       | Some j \<Rightarrow>
                           (case m ! j of
                              FuncOp_sym calleeFnOp \<Rightarrow>
                                (case func_front calleeFnOp of
                                   None \<Rightarrow> (Aborts ''front() of a function without blocks'', m)
                                 | Some cb \<Rightarrow>
                                     if length cb < 2
                                     then (Aborts ''no operation before the terminator'', m)
                                     else
                                       (case cb ! (length cb - 2) of
                                          LaunchFuncOp root leaf \<Rightarrow>
                                            (case lookupSymbolIn symbol_name m root of
                                               None \<Rightarrow> (Returns failure, m)
                                             | Some k \<Rightarrow>
                                                 (case m ! k of
                                                    GPUModuleOp_sym gm \<Rightarrow>
  (case lookupSymbolIn gpu_symbol_name (gpu_module_body gm) leaf of
     None \<Rightarrow> (Returns failure, m)
   | Some l \<Rightarrow>
       (case gpu_module_body gm ! l of
          GPUFuncOp_sym launchedGPUFnOp \<Rightarrow>
            (let gpuTargetFuncName = func_name op @ ''__gpu__'' in
             if lookupSymbolIn gpu_symbol_name (gpu_module_body gm) gpuTargetFuncName \<noteq> None
             then (Returns failure, m)
             else
               (let execRuntimeAttr = ExecutionRuntimeAttr target;
                    execTargetAttr = ExecutionTargetAttr GPU;
                    a1 = setAttr (gpu_func_attrs launchedGPUFnOp) ExecRuntimeAttrName
                           execRuntimeAttr;
                    a2 = setAttr a1 ExecTargetAttrName execTargetAttr;
                    a3 = setAttr a2 HeaderDeclAttrName UnitAttr;
                    a4 = setAttr a3 RawPointerAPIAttrName UnitAttr;
                    renamed = \<lparr> gpu_func_name = gpuTargetFuncName, gpu_func_attrs = a4 \<rparr>;
                    m1 = m[k := GPUModuleOp_sym
                                  (gm\<lparr> gpu_module_body :=
                                         (gpu_module_body gm)[l := GPUFuncOp_sym renamed] \<rparr>)];
                    m2 = m1[j := FuncOp_sym
                                  (calleeFnOp\<lparr> func_front :=
                                     Some (cb[length cb - 2 :=
                                                LaunchFuncOp root gpuTargetFuncName]) \<rparr>)];
                    m3 = (case m2 ! i of
                            FuncOp_sym op' \<Rightarrow>
                              m2[i := FuncOp_sym
                                        (op'\<lparr> func_attrs :=
                                            setAttr (func_attrs op') ExecRuntimeAttrName
                                              execRuntimeAttr \<rparr>)]
                          | _ \<Rightarrow> m2)
                in (Returns success, m3)))
        | _ \<Rightarrow> (Returns failure, m)))
                                                  | _ \<Rightarrow> (Returns failure, m)))
                                        | _ \<Rightarrow> (Returns failure, m)))
                            | _ \<Rightarrow> (Returns failure, m)))
                  | _ \<Rightarrow> (Returns failure, m)))
      | _ \<Rightarrow> (Returns failure, m))"

text \<open>Resolving a launch's nested reference from the module, as the printer and MLIR do.\<close>

definition resolveKernel :: "module_symbol list \<Rightarrow> string \<Rightarrow> string \<Rightarrow> GPUFuncOp option" where
  "resolveKernel m root leaf =
     (case lookupSymbolIn symbol_name m root of
        None \<Rightarrow> None
      | Some k \<Rightarrow>
          (case m ! k of
             GPUModuleOp_sym gm \<Rightarrow>
               (case lookupSymbolIn gpu_symbol_name (gpu_module_body gm) leaf of
                  None \<Rightarrow> None
                | Some l \<Rightarrow>
                    (case gpu_module_body gm ! l of
                       GPUFuncOp_sym g \<Rightarrow> Some g
                     | _ \<Rightarrow> None))
           | _ \<Rightarrow> None))"

definition funcAt :: "module_symbol list \<Rightarrow> nat \<Rightarrow> FuncOp option" where
  "funcAt m i = (if i < length m then (case m ! i of FuncOp_sym f \<Rightarrow> Some f | _ \<Rightarrow> None)
                 else None)"

definition gpuFuncAt :: "module_symbol list \<Rightarrow> nat \<Rightarrow> nat \<Rightarrow> GPUFuncOp option" where
  "gpuFuncAt m k l =
     (if k < length m then
        (case m ! k of
           GPUModuleOp_sym gm \<Rightarrow>
             (if l < length (gpu_module_body gm) then
                (case gpu_module_body gm ! l of GPUFuncOp_sym g \<Rightarrow> Some g | _ \<Rightarrow> None)
              else None)
         | _ \<Rightarrow> None)
      else None)"

text \<open>
  An example module: the entry point \<open>f\<close> calls \<open>f_impl\<close>, which launches the kernel
  \<open>kernel0\<close> of the GPU module \<open>gpu_mod\<close>.
\<close>

definition exampleModule :: "module_symbol list" where
  "exampleModule =
     [FuncOp_sym \<lparr> func_name = ''f'',
                   func_attrs = [HeaderDeclAttrName \<mapsto> UnitAttr, RawPointerAPIAttrName \<mapsto> UnitAttr],
                   func_front = Some [CallOp ''f_impl'', ReturnOp] \<rparr>,
      FuncOp_sym \<lparr> func_name = ''f_impl'', func_attrs = Map.empty,
                   func_front = Some [OtherOp ''constant'', LaunchFuncOp ''gpu_mod'' ''kernel0'',
                                      ReturnOp] \<rparr>,
      GPUModuleOp_sym \<lparr> gpu_module_name = ''gpu_mod'',
                        gpu_module_body =
                          [GPUFuncOp_sym \<lparr> gpu_func_name = ''kernel0'',
                                           gpu_func_attrs = Map.empty \<rparr>] \<rparr>]"

section \<open>Barrier hoisting\<close>

text \<open>
  The module as a tree. An operation has a kind and its blocks, the blocks of all its
  regions in order; a block is the list of its operations. The hoisting pattern tells
  apart barriers, the two conditional operations and everything else.
\<close>

datatype op_kind = vir_BarrierOp BarrierScope | AffineIfOp | scf_IfOp | UnrelatedOp string

datatype operation = Operation op_kind "operation list list"

fun kindOf :: "operation \<Rightarrow> op_kind" where
  "kindOf (Operation k bs) = k"

fun blocksOf :: "operation \<Rightarrow> operation list list" where
  "blocksOf (Operation k bs) = bs"

fun isBarrier :: "op_kind \<Rightarrow> bool" where
  "isBarrier (vir_BarrierOp s) = True"
| "isBarrier _ = False"

fun isAffineIf :: "op_kind \<Rightarrow> bool" where
  "isAffineIf AffineIfOp = True"
| "isAffineIf _ = False"

fun isSCFIf :: "op_kind \<Rightarrow> bool" where
  "isSCFIf scf_IfOp = True"
| "isSCFIf _ = False"

definition isConditional :: "op_kind \<Rightarrow> bool" where
  "isConditional k = (isAffineIf k \<or> isSCFIf k)"

text \<open>
  An operation pointer is the path from the root: at each step the block and the position
  in the block. The empty path is the root itself.
\<close>

type_synonym path = "(nat \<times> nat) list"

fun opAt :: "operation \<Rightarrow> path \<Rightarrow> operation option" where
  "opAt x [] = Some x"
| "opAt (Operation k bs) ((b, i) # p) =
     (if b < length bs \<and> i < length (bs ! b) then opAt (bs ! b ! i) p else None)"

text \<open>
  The proper ancestors of the operation at a path whose kind satisfies \<open>T\<close>, outermost
  first, as paths.
\<close>

fun ancestorsOfType :: "(op_kind \<Rightarrow> bool) \<Rightarrow> operation \<Rightarrow> path \<Rightarrow> path list" where
  "ancestorsOfType T x [] = []"
| "ancestorsOfType T (Operation k bs) ((b, i) # p) =
     (if T k then [[]] else [])
     @ (if b < length bs \<and> i < length (bs ! b)
        then map ((#) (b, i)) (ancestorsOfType T (bs ! b ! i) p) else [])"

text \<open>
  Modelled from the spec: \<^verbatim>\<open>utilir::GetHighestAncestorOfType\<close> is a helper of
  \<^verbatim>\<open>IRUtil.h\<close>, which is not part of the sources at hand. The specification has it
  find the highest ancestor operation of the given type: the outermost one, null when
  there is none.
\<close>

definition GetHighestAncestorOfType ::
  "(op_kind \<Rightarrow> bool) \<Rightarrow> operation \<Rightarrow> path \<Rightarrow> path option" where
  "GetHighestAncestorOfType T root p =
     (case ancestorsOfType T root p of [] \<Rightarrow> None | q # qs \<Rightarrow> Some q)"

text \<open>\<^verbatim>\<open>a->isAncestor(b)\<close> of MLIR: \<open>a\<close> is \<open>b\<close> or encloses it.\<close>

definition isAncestor :: "path \<Rightarrow> path \<Rightarrow> bool" where
  "isAncestor a b = (take (length a) b = a)"

definition GetAncestorIfOp :: "operation \<Rightarrow> path \<Rightarrow> path option" where
  "GetAncestorIfOp root op =
     (let parentAffineIfOp = GetHighestAncestorOfType isAffineIf root op;
          parentSCFIfOp = GetHighestAncestorOfType isSCFIf root op
      in case (parentAffineIfOp, parentSCFIfOp) of
           (Some a, Some s) \<Rightarrow> if isAncestor a s then Some a else Some s
         | _ \<Rightarrow> if parentAffineIfOp = None then parentSCFIfOp else parentAffineIfOp)"

text \<open>
  The rewriter's edits of the tree. \<open>updateAt\<close> rewrites the operation at a path and
  leaves the tree as it is when the path leads nowhere. \<open>insertAt root q x\<close> puts \<open>x\<close> into
  the block of the position \<open>q\<close>, in front of what stands there; \<open>eraseAt\<close> removes the
  operation at a position.
\<close>

fun updateAt :: "operation \<Rightarrow> path \<Rightarrow> (operation \<Rightarrow> operation) \<Rightarrow> operation" where
  "updateAt x [] f = f x"
| "updateAt (Operation k bs) ((b, i) # p) f =
     (if b < length bs \<and> i < length (bs ! b)
      then Operation k (bs[b := (bs ! b)[i := updateAt (bs ! b ! i) p f]])
      else Operation k bs)"

fun insertInBlock :: "nat \<Rightarrow> nat \<Rightarrow> operation \<Rightarrow> operation \<Rightarrow> operation" where
  "insertInBlock b i x (Operation k bs) =
     Operation k (bs[b := take i (bs ! b) @ [x] @ drop i (bs ! b)])"

fun eraseInBlock :: "nat \<Rightarrow> nat \<Rightarrow> operation \<Rightarrow> operation" where
  "eraseInBlock b i (Operation k bs) =
     Operation k (bs[b := take i (bs ! b) @ drop (Suc i) (bs ! b)])"

definition insertAt :: "operation \<Rightarrow> path \<Rightarrow> operation \<Rightarrow> operation" where
  "insertAt root q x =
     (if q = [] then root
      else updateAt root (butlast q) (insertInBlock (fst (last q)) (snd (last q)) x))"

definition eraseAt :: "operation \<Rightarrow> path \<Rightarrow> operation" where
  "eraseAt root p =
     (if p = [] then root
      else updateAt root (butlast p) (eraseInBlock (fst (last p)) (snd (last p))))"

text \<open>The position that follows \<open>q\<close> in its block.\<close>

definition nextPosition :: "path \<Rightarrow> path" where
  "nextPosition q = butlast q @ [(fst (last q), Suc (snd (last q)))]"

text \<open>
  \<^verbatim>\<open>ConditionalBarrierHoistingPattern::matchAndRewrite\<close> on the operation at \<open>p\<close>. The
  pattern is a pattern on barriers: elsewhere it does not apply, which is the result
  failure here. Each insertion in front of the conditional moves the conditional, and
  the barrier inside it, one position on; the paths follow. A conditional that is the
  root has no block to insert into, and the insertion does not return.
\<close>

definition ConditionalBarrierHoistingPattern ::
  "operation \<Rightarrow> path \<Rightarrow> outcome \<times> operation" where
  "ConditionalBarrierHoistingPattern root p =
     (case opAt root p of
        Some (Operation (vir_BarrierOp scope) bs) \<Rightarrow>
          (case GetAncestorIfOp root p of
             Some ancestorIfOp \<Rightarrow>
               if ancestorIfOp = [] then (Aborts ''setInsertionPoint on the root'', root)
               else
                 (let barrier = Operation (vir_BarrierOp scope) bs;
                      root1 = insertAt root ancestorIfOp barrier;
                      ancestorIfOp1 = nextPosition ancestorIfOp;
                      root2 = insertAt root1 (nextPosition ancestorIfOp1) barrier;
                      op2 = ancestorIfOp1 @ drop (length ancestorIfOp) p;
                      root3 = eraseAt root2 op2
                  in (Returns success, root3))
           | None \<Rightarrow> (Returns success, root))
      | _ \<Rightarrow> (Returns failure, root))"

text \<open>The number of barriers in an operation, itself included.\<close>

fun barriersIn :: "operation \<Rightarrow> nat" where
  "barriersIn (Operation k bs) =
     (if isBarrier k then 1 else 0) + sum_list (map (\<lambda>blk. sum_list (map barriersIn blk)) bs)"

text \<open>No barrier stands inside a conditional.\<close>

fun hoisted :: "operation \<Rightarrow> bool" where
  "hoisted (Operation k bs) =
     (if isConditional k
      then sum_list (map (\<lambda>blk. sum_list (map barriersIn blk)) bs) = 0
      else list_all (\<lambda>blk. list_all hoisted blk) bs)"







definition barrierOutsideIf :: operation where
  "barrierOutsideIf =
     Operation (UnrelatedOp ''module'')
       [[Operation (UnrelatedOp ''gpu.func'')
           [[Operation (vir_BarrierOp Block) [],
             Operation scf_IfOp [[Operation (UnrelatedOp ''store'') []], []],
             Operation (vir_BarrierOp Block) [],
             Operation (UnrelatedOp ''return'') []]]]]"

section \<open>Theorems: pass selection and barrier op selection\<close>

text \<open>
  C8. The pass-selection entry point returns the ROCm pipeline for ROCM and DEFAULT, the
  CUDA pipeline for CUDA, the SPIR-V pipeline for VULKAN, and the null result for NONE,
  OPENMP and every value outside the enumeration.
\<close>

theorem createAcceraToGPUPass_selection:
  "createAcceraToGPUPass r =
     (if r = ROCM \<or> r = DEFAULT then Some AcceraToROCDLPass
      else if r = CUDA then Some AcceraToNVVMPass
      else if r = VULKAN then Some AcceraToSPIRVPass
      else None)"
  by (cases r)
     (simp_all add: createAcceraToROCDLPass_def createAcceraToNVVMPass_def
        createAcceraToSPIRVPass_def)

text \<open>
  C2. Each barrier conversion succeeds exactly on the scopes its backend supports. On the
  SPIR-V path these are block (a workgroup control barrier) and warp (a subgroup control
  barrier whose memory semantics include the subgroup-memory flag); on the GPU dialect
  path (CUDA and ROCm) these are block (the GPU dialect's barrier) and threadfence (a
  sequentially consistent fence of the device-wide scope "agent"). Every other scope is
  a match failure reported with the message "Unhandled barrier scope.".
\<close>

theorem barrier_op_selection:
  "ValueBarrierToSPIRVBarrierConversion Block =
     (Returns success,
      [replaceOpWithNewOp (spirv_ControlBarrierOp Workgroup Workgroup {AcquireRelease})])
   \<and> ValueBarrierToSPIRVBarrierConversion Warp =
     (Returns success,
      [replaceOpWithNewOp
         (spirv_ControlBarrierOp Subgroup Subgroup {AcquireRelease, SubgroupMemory})])
   \<and> ValueBarrierToGPUBarrierConversion Block =
     (Returns success, [replaceOpWithNewOp gpu_BarrierOp])
   \<and> ValueBarrierToGPUBarrierConversion Threadfence =
     (Returns success, [replaceOpWithNewOp (LLVM_FenceOp seq_cst ''agent'')])
   \<and> (fst (ValueBarrierToSPIRVBarrierConversion s) = Returns success) = (s = Block \<or> s = Warp)
   \<and> (fst (ValueBarrierToGPUBarrierConversion s) = Returns success)
        = (s = Block \<or> s = Threadfence)
   \<and> (ValueBarrierToSPIRVBarrierConversion s
          = (Returns failure, [notifyMatchFailure ''Unhandled barrier scope.''])
        ) = (s \<noteq> Block \<and> s \<noteq> Warp)
   \<and> (ValueBarrierToGPUBarrierConversion s
          = (Returns failure, [notifyMatchFailure ''Unhandled barrier scope.''])
        ) = (s \<noteq> Block \<and> s \<noteq> Threadfence)"
  by (cases s) simp_all

section \<open>Theorems: fragment patterns\<close>

lemma length_inductionValues:
  "0 < step \<Longrightarrow> length (inductionValues lb ub step) = nat ((ub - lb + step - 1) div step)"
proof (induction lb ub step rule: inductionValues.induct)
  case (1 lb ub step)
  show ?case
  proof (cases "lb < ub")
    case True
    have eq: "(ub - lb + step - 1) div step = (ub - (lb + step) + step - 1) div step + 1"
    proof -
      have "ub - lb + step - 1 = (ub - (lb + step) + step - 1) + 1 * step" by simp
      then show ?thesis
        using 1(2) by (metis div_add_self2 less_numeral_extra(3) mult_1 add.commute)
    qed
    have nonneg: "0 \<le> (ub - lb - 1) div step"
      using True 1(2) by (simp add: pos_imp_zdiv_nonneg_iff)
    from True 1 show ?thesis
      by (subst inductionValues.simps) (simp add: eq nonneg Suc_nat_eq_nat_zadd1)
  next
    case False
    have "(ub - lb + step - 1) div step \<le> (step - 1) div step"
      using False 1(2) by (intro zdiv_mono1) simp_all
    moreover have "(step - 1) div step = 0"
      using 1(2) by (simp add: div_pos_pos_trivial)
    ultimately have "(ub - lb + step - 1) div step \<le> 0" by simp
    with False show ?thesis
      by (subst inductionValues.simps) simp
  qed
qed

lemma loadLayout_elementType:
  assumes "loadLayout mt w = Some (m, v, e)"
  shows "e = (if getOperand mt = ''COp'' \<and> isF16 (getElementType mt) then F32
              else getElementType mt)"
proof (cases "getOperand mt = ''COp''")
  case True
  with assms show ?thesis
    by (simp add: loadLayout_def Let_def split: option.splits prod.splits if_splits)
next
  case False
  with assms show ?thesis
    by (simp add: loadLayout_def Let_def split: option.splits)
qed

lemma load_success_layout:
  assumes "fst (ValueMFMALoadOpToRocDLConversion op) = Returns success"
  shows "\<exists>w lm m vecSize elementType.
           loadLayout (loadMatrixType op) w = Some (lm, vecSize, elementType)
           \<and> builtLoopBody (snd (ValueMFMALoadOpToRocDLConversion op))
               = loadLoopBody op m elementType"
proof (cases "loadWarpSize op")
  case None
  with assms show ?thesis
    by (simp add: ValueMFMALoadOpToRocDLConversion_def split: if_splits)
next
  case (Some ws)
  obtain wx wy where ws: "ws = (wx, wy)" by (cases ws)
  show ?thesis
  proof (cases "loadLayout (loadMatrixType op) (wx * wy)")
    case None
    with assms Some ws show ?thesis
      by (simp add: ValueMFMALoadOpToRocDLConversion_def split: if_splits)
  next
    case layout: (Some r)
    obtain lm vecSize elementType where r: "r = (lm, vecSize, elementType)" by (cases r)
    show ?thesis
    proof (cases "compose lm (loadAffineMap op)")
      case None
      with assms Some ws layout r show ?thesis
        by (simp add: ValueMFMALoadOpToRocDLConversion_def split: if_splits)
    next
      case composed: (Some m)
      with assms Some ws layout r
      have "builtLoopBody (snd (ValueMFMALoadOpToRocDLConversion op))
              = loadLoopBody op m elementType"
        by (simp add: ValueMFMALoadOpToRocDLConversion_def builtLoopBody_def
              builtMapOperands_def split: if_splits)
      with layout r show ?thesis by blast
    qed
  qed
qed

lemma load_success_loop:
  assumes "fst (ValueMFMALoadOpToRocDLConversion op) = Returns success"
  shows "\<exists>m. builtLoopBody (snd (ValueMFMALoadOpToRocDLConversion op))
               = loadLoopBody op m
                   (if getOperand (loadMatrixType op) = ''COp''
                        \<and> isF16 (getElementType (loadMatrixType op))
                    then F32 else getElementType (loadMatrixType op))"
proof -
  from load_success_layout [OF assms] obtain w lm m vecSize elementType where
    l: "loadLayout (loadMatrixType op) w = Some (lm, vecSize, elementType)" and
    b: "builtLoopBody (snd (ValueMFMALoadOpToRocDLConversion op))
          = loadLoopBody op m elementType"
    by blast
  from loadLayout_elementType [OF l] b show ?thesis by blast
qed

lemma store_success_loop:
  assumes "fst (ValueMFMAStoreOpToRocDLConversion op) = Returns success"
  shows "\<exists>m. storeLoopBody op m
               = Some (builtLoopBody (snd (ValueMFMAStoreOpToRocDLConversion op)))"
proof -
  from assms obtain ws vecSize ld rc m body where
    "storeLoopBody op m = Some body"
    "snd (ValueMFMAStoreOpToRocDLConversion op)
       = map create builtMapOperands
         @ [replaceOpWithNewOp (''loop'', AffineForOp 0 vecSize 1 [] body)]"
    by (simp add: ValueMFMAStoreOpToRocDLConversion_def Let_def
             split: if_splits option.splits prod.splits)
  then show ?thesis
    by (auto simp: builtLoopBody_def builtMapOperands_def)
qed

text \<open>
  C10. On the CUDA pipeline the load and the constant patterns succeed with the single
  rewriter call that erases the operation, the store pattern succeeds without any
  rewriter call, and the compute pattern replaces the operation by a subgroup
  matrix-multiply operation over its three operands; none of the four builds an address
  computation.
\<close>

theorem nvvm_fragment_patterns:
  "ValueMFMALoadOpToGPUConversion l = (Returns success, [eraseOp])
   \<and> ValueMFMAConstantOpToGPUConversion c = (Returns success, [eraseOp])
   \<and> ValueMFMAStoreOpToGPUConversion s = (Returns success, [])
   \<and> ValueMFMAComputeToGPUConversion m =
       (Returns success,
        [replaceOpWithNewOp
           (''mma'', gpu_SubgroupMmaComputeOp (opCType m) [opA m, opB m, opC m])])"
  by (simp add: ValueMFMALoadOpToGPUConversion_def ValueMFMAConstantOpToGPUConversion_def
        ValueMFMAStoreOpToGPUConversion_def ValueMFMAComputeToGPUConversion_def)

text \<open>
  C5. A load or a store whose shape fails the validity predicate is rejected by
  \<^verbatim>\<open>notifyMatchFailure\<close> as the only rewriter call. An operand role outside A, B and C
  is not rejected: the load pattern sets the insertion point, takes the null map of the
  \<^verbatim>\<open>.Default\<close> case and composes it, which does not return; the store pattern never reads
  the role and lowers such a store as an accumulator store.
\<close>

theorem fragment_rejection:
  "ValueMFMALoadOpToRocDLConversion
       (l\<lparr> loadMatrixType := (loadMatrixType l)\<lparr> isValidShape := False \<rparr> \<rparr>)
     = (Returns failure, [notifyMatchFailure ''unhandled matrix shape''])
   \<and> ValueMFMAStoreOpToRocDLConversion
       (s\<lparr> storeMatrixType := (storeMatrixType s)\<lparr> isValidShape := False \<rparr> \<rparr>)
     = (Returns failure, [notifyMatchFailure ''unhandled matrix shape''])
   \<and> ValueMFMALoadOpToRocDLConversion (exampleLoad ''DOp'' F32)
     = (Aborts ''AffineMap::compose on a null or mismatched map'', [setInsertionPoint])
   \<and> fst (ValueMFMAStoreOpToRocDLConversion
            ((exampleStore F32 (VectorType 4 F32))
               \<lparr> storeMatrixType := exampleMatrixType ''DOp'' F32 \<rparr>))
     = Returns success"
  by (simp add: ValueMFMALoadOpToRocDLConversion_def ValueMFMAStoreOpToRocDLConversion_def
        exampleLoad_def exampleStore_def exampleMatrixType_def identityMap_def loadLayout_def
        cpp_div_def compose_def GetRowColOffsetForCLoadStore_def getNumInputs_def
        storeLoopBody_def Let_def)

text \<open>
  C6, as stated, fails: a store of a 16-bit accumulator fragment whose vector already
  has 16-bit elements is lowered with no truncation.
\<close>

theorem store_f16_value_counterexample:
  "getOperand (storeMatrixType (exampleStore F16 (VectorType 16 F16))) = ''COp''
   \<and> isF16 (getElementType (storeMatrixType (exampleStore F16 (VectorType 16 F16))))
   \<and> fst (ValueMFMAStoreOpToRocDLConversion (exampleStore F16 (VectorType 16 F16)))
       = Returns success
   \<and> filter isConversion
        (builtLoopBody (snd (ValueMFMAStoreOpToRocDLConversion
                               (exampleStore F16 (VectorType 16 F16))))) = []"
  by (simp add: ValueMFMAStoreOpToRocDLConversion_def
        exampleStore_def exampleMatrixType_def identityMap_def
        cpp_div_def compose_def GetRowColOffsetForCLoadStore_def getNumInputs_def
        storeLoopBody_def storeLoopPrefix_def builtLoopBody_def builtMapOperands_def Let_def)

text \<open>
  C6, amended. A successfully lowered accumulator (C) load of 16-bit elements extends
  each loaded element to 32 bits and inserts the extended element. A successfully
  lowered store of a 16-bit fragment whose vector has 32-bit elements truncates each
  extracted element to 16 bits and writes the truncated element. Loads and stores of
  32-bit fragments contain no conversion. A successfully lowered store whose vector has
  elements of any other type than 32-bit float, 16-bit elements among them, writes each
  extracted element as it is.
\<close>

theorem precision_adaptation:
  "(fst (ValueMFMALoadOpToRocDLConversion l16) = Returns success
      \<and> getOperand (loadMatrixType l16) = ''COp''
      \<and> isF16 (getElementType (loadMatrixType l16))
    \<longrightarrow> drop 2 (builtLoopBody (snd (ValueMFMALoadOpToRocDLConversion l16)))
          = [(''load'', memref_LoadOp (loadMemref l16) ''mappedOperands''),
             (''castedElem'', FPExtOp ''load'' F32),
             (''vec'', vector_InsertElementOp ''castedElem'' ''loop.arg0'' ''laneIndex''),
             (''yield'', AffineYieldOp [''vec''])])
   \<and> (fst (ValueMFMAStoreOpToRocDLConversion s16) = Returns success
      \<and> isF16 (getElementType (storeMatrixType s16))
      \<and> storeValueType s16 = VectorType n F32
    \<longrightarrow> drop 2 (builtLoopBody (snd (ValueMFMAStoreOpToRocDLConversion s16)))
          = [(''elem'', vector_ExtractElementOp (storeValue s16) ''laneIndex''),
             (''castedElem'', FPTruncOp ''elem'' F16),
             (''store'', memref_StoreOp ''castedElem'' (storeMemref s16) ''mappedOperands'')])
   \<and> (fst (ValueMFMALoadOpToRocDLConversion l32) = Returns success
      \<and> isF32 (getElementType (loadMatrixType l32))
    \<longrightarrow> filter isConversion (builtLoopBody (snd (ValueMFMALoadOpToRocDLConversion l32))) = [])
   \<and> (fst (ValueMFMAStoreOpToRocDLConversion s32) = Returns success
      \<and> isF32 (getElementType (storeMatrixType s32))
    \<longrightarrow> filter isConversion (builtLoopBody (snd (ValueMFMAStoreOpToRocDLConversion s32))) = [])
   \<and> (fst (ValueMFMAStoreOpToRocDLConversion sv) = Returns success
      \<and> storeValueType sv = VectorType k t
      \<and> \<not> isF32 t
    \<longrightarrow> drop 2 (builtLoopBody (snd (ValueMFMAStoreOpToRocDLConversion sv)))
          = [(''elem'', vector_ExtractElementOp (storeValue sv) ''laneIndex''),
             (''store'', memref_StoreOp ''elem'' (storeMemref sv) ''mappedOperands'')])"
proof (intro conjI impI)
  assume a: "fst (ValueMFMALoadOpToRocDLConversion l16) = Returns success
      \<and> getOperand (loadMatrixType l16) = ''COp''
      \<and> isF16 (getElementType (loadMatrixType l16))"
  with load_success_loop [of l16] obtain m where
    "builtLoopBody (snd (ValueMFMALoadOpToRocDLConversion l16)) = loadLoopBody l16 m F32"
    by auto
  with a show "drop 2 (builtLoopBody (snd (ValueMFMALoadOpToRocDLConversion l16)))
          = [(''load'', memref_LoadOp (loadMemref l16) ''mappedOperands''),
             (''castedElem'', FPExtOp ''load'' F32),
             (''vec'', vector_InsertElementOp ''castedElem'' ''loop.arg0'' ''laneIndex''),
             (''yield'', AffineYieldOp [''vec''])]"
    by (simp add: loadLoopBody_def)
next
  assume a: "fst (ValueMFMAStoreOpToRocDLConversion s16) = Returns success
      \<and> isF16 (getElementType (storeMatrixType s16))
      \<and> storeValueType s16 = VectorType n F32"
  with store_success_loop [of s16] obtain m where
    m: "storeLoopBody s16 m = Some (builtLoopBody (snd (ValueMFMAStoreOpToRocDLConversion s16)))"
    by auto
  from m [symmetric] a show "drop 2 (builtLoopBody (snd (ValueMFMAStoreOpToRocDLConversion s16)))
          = [(''elem'', vector_ExtractElementOp (storeValue s16) ''laneIndex''),
             (''castedElem'', FPTruncOp ''elem'' F16),
             (''store'', memref_StoreOp ''castedElem'' (storeMemref s16) ''mappedOperands'')]"
    by (cases "getElementType (storeMatrixType s16)")
       (auto simp: storeLoopBody_def storeLoopPrefix_def)
next
  assume a: "fst (ValueMFMALoadOpToRocDLConversion l32) = Returns success
      \<and> isF32 (getElementType (loadMatrixType l32))"
  then have "getElementType (loadMatrixType l32) = F32"
    by (cases "getElementType (loadMatrixType l32)") simp_all
  with a load_success_loop [of l32] obtain m where
    "builtLoopBody (snd (ValueMFMALoadOpToRocDLConversion l32)) = loadLoopBody l32 m F32"
    by auto
  with \<open>getElementType (loadMatrixType l32) = F32\<close>
  show "filter isConversion (builtLoopBody (snd (ValueMFMALoadOpToRocDLConversion l32))) = []"
    by (simp add: loadLoopBody_def)
next
  assume a: "fst (ValueMFMAStoreOpToRocDLConversion s32) = Returns success
      \<and> isF32 (getElementType (storeMatrixType s32))"
  then have "getElementType (storeMatrixType s32) = F32"
    by (cases "getElementType (storeMatrixType s32)") simp_all
  moreover from a store_success_loop [of s32] obtain m where
    m: "storeLoopBody s32 m = Some (builtLoopBody (snd (ValueMFMAStoreOpToRocDLConversion s32)))"
    by auto
  note m [symmetric]
  ultimately
  show "filter isConversion (builtLoopBody (snd (ValueMFMAStoreOpToRocDLConversion s32))) = []"
    by (auto simp: storeLoopBody_def storeLoopPrefix_def split: mlir_type.splits)
next
  assume a: "fst (ValueMFMAStoreOpToRocDLConversion sv) = Returns success
      \<and> storeValueType sv = VectorType k t
      \<and> \<not> isF32 t"
  with store_success_loop [of sv] obtain m where
    m: "storeLoopBody sv m = Some (builtLoopBody (snd (ValueMFMAStoreOpToRocDLConversion sv)))"
    by auto
  from m [symmetric] a
  show "drop 2 (builtLoopBody (snd (ValueMFMAStoreOpToRocDLConversion sv)))
          = [(''elem'', vector_ExtractElementOp (storeValue sv) ''laneIndex''),
             (''store'', memref_StoreOp ''elem'' (storeMemref sv) ''mappedOperands'')]"
    by (simp add: storeLoopBody_def storeLoopPrefix_def)
qed

theorem precision_adaptation_witness:
  "fst (ValueMFMALoadOpToRocDLConversion (exampleLoad ''COp'' F16)) = Returns success
   \<and> drop 2 (builtLoopBody (snd (ValueMFMALoadOpToRocDLConversion (exampleLoad ''COp'' F16))))
       = [(''load'', memref_LoadOp ''memref'' ''mappedOperands''),
          (''castedElem'', FPExtOp ''load'' F32),
          (''vec'', vector_InsertElementOp ''castedElem'' ''loop.arg0'' ''laneIndex''),
          (''yield'', AffineYieldOp [''vec''])]
   \<and> fst (ValueMFMAStoreOpToRocDLConversion (exampleStore F16 (VectorType 16 F32)))
       = Returns success
   \<and> drop 2 (builtLoopBody
               (snd (ValueMFMAStoreOpToRocDLConversion (exampleStore F16 (VectorType 16 F32)))))
       = [(''elem'', vector_ExtractElementOp ''value'' ''laneIndex''),
          (''castedElem'', FPTruncOp ''elem'' F16),
          (''store'', memref_StoreOp ''castedElem'' ''memref'' ''mappedOperands'')]
   \<and> fst (ValueMFMALoadOpToRocDLConversion (exampleLoad ''COp'' F32)) = Returns success
   \<and> filter isConversion
        (builtLoopBody (snd (ValueMFMALoadOpToRocDLConversion (exampleLoad ''COp'' F32)))) = []
   \<and> fst (ValueMFMAStoreOpToRocDLConversion (exampleStore F32 (VectorType 16 F32)))
       = Returns success
   \<and> filter isConversion
        (builtLoopBody
           (snd (ValueMFMAStoreOpToRocDLConversion (exampleStore F32 (VectorType 16 F32))))) = []
   \<and> fst (ValueMFMAStoreOpToRocDLConversion (exampleStore F16 (VectorType 16 F16)))
       = Returns success
   \<and> drop 2 (builtLoopBody
               (snd (ValueMFMAStoreOpToRocDLConversion (exampleStore F16 (VectorType 16 F16)))))
       = [(''elem'', vector_ExtractElementOp ''value'' ''laneIndex''),
          (''store'', memref_StoreOp ''elem'' ''memref'' ''mappedOperands'')]"
proof -
  have l: "\<And>t. fst (ValueMFMALoadOpToRocDLConversion (exampleLoad ''COp'' t)) = Returns success"
    by (simp add: ValueMFMALoadOpToRocDLConversion_def exampleLoad_def exampleMatrixType_def
          identityMap_def loadLayout_def cpp_div_def compose_def
          GetRowColOffsetForCLoadStore_def getNumInputs_def Let_def)
  have s: "\<And>t u. fst (ValueMFMAStoreOpToRocDLConversion (exampleStore t (VectorType 16 u)))
                = Returns success"
    by (simp add: ValueMFMAStoreOpToRocDLConversion_def exampleStore_def exampleMatrixType_def
          identityMap_def cpp_div_def compose_def GetRowColOffsetForCLoadStore_def
          getNumInputs_def storeLoopBody_def Let_def)
  have f: "getOperand (loadMatrixType (exampleLoad ''COp'' F16)) = ''COp''"
    "isF16 (getElementType (loadMatrixType (exampleLoad ''COp'' F16)))"
    "isF32 (getElementType (loadMatrixType (exampleLoad ''COp'' F32)))"
    "isF16 (getElementType (storeMatrixType (exampleStore F16 (VectorType 16 F32))))"
    "isF32 (getElementType (storeMatrixType (exampleStore F32 (VectorType 16 F32))))"
    "storeValueType (exampleStore F16 (VectorType 16 F32)) = VectorType 16 F32"
    "loadMemref (exampleLoad ''COp'' F16) = ''memref''"
    "storeMemref (exampleStore F16 (VectorType 16 F32)) = ''memref''"
    "storeValue (exampleStore F16 (VectorType 16 F32)) = ''value''"
    "storeValueType (exampleStore F16 (VectorType 16 F16)) = VectorType 16 F16"
    "storeMemref (exampleStore F16 (VectorType 16 F16)) = ''memref''"
    "storeValue (exampleStore F16 (VectorType 16 F16)) = ''value''"
    by (simp_all add: exampleLoad_def exampleStore_def exampleMatrixType_def)
  from precision_adaptation
         [of "exampleLoad ''COp'' F16" "exampleStore F16 (VectorType 16 F32)" 16
             "exampleLoad ''COp'' F32" "exampleStore F32 (VectorType 16 F32)"
             "exampleStore F16 (VectorType 16 F16)" 16 F16]
  show ?thesis
    by (simp add: l s f)
qed

lemma compute_loop:
  assumes "opAType op = VectorType n t"
    and "isaVectorType (opBType op)" and "isaVectorType (opCType op)"
  shows "ValueMFMAComputeToRocDLConversion op =
           (Returns (fst (computeLoopBody op)),
            [create (''cbsz'', ConstantOp I32 (IntegerAttr (cbsz op))),
             create (''abid'', ConstantOp I32 (IntegerAttr (abid op))),
             create (''blgp'', ConstantOp I32 (IntegerAttr (blgp op))),
             setInsertionPoint,
             replaceOpWithNewOp
               (''loop'', AffineForOp 0 (getThreadTileSize (computeMatrixType op))
                            (if isF16 t then 4 else 1) [opC op] (snd (computeLoopBody op)))])"
  using assms by (simp add: ValueMFMAComputeToRocDLConversion_def Let_def)

lemma computeLoopBody_F16:
  assumes "opAType op = VectorType n F16"
  shows "computeLoopBody op =
           (case mfmaF16 (getShapeType (computeMatrixType op)) of
              Some i \<Rightarrow> (success,
                  [(''laneIndex'', IndexCastOp ''loop.iv'' I32),
                   (''zero'', ConstantOp F16 ZeroAttr),
                   (''vecA'', vector_BroadcastOp (VectorType 4 F16) ''zero''),
                   (''vecB'', vector_BroadcastOp (VectorType 4 F16) ''zero''),
                   loadABLoop op 4,
                   (''mfma'', ROCDL_mfma i (opCType op)
                                  [''loadAB.result2'', ''loadAB.result3'', ''loop.arg0'',
                                   ''cbsz'', ''abid'', ''blgp'']),
                   (''yield'', AffineYieldOp [''mfma''])])
            | None \<Rightarrow> (failure,
                  [(''laneIndex'', IndexCastOp ''loop.iv'' I32),
                   (''zero'', ConstantOp F16 ZeroAttr),
                   (''vecA'', vector_BroadcastOp (VectorType 4 F16) ''zero''),
                   (''vecB'', vector_BroadcastOp (VectorType 4 F16) ''zero''),
                   loadABLoop op 4]))"
  using assms by (simp add: computeLoopBody_def Let_def split: option.splits)

lemma computeLoopBody_F32:
  assumes "opAType op = VectorType n F32"
  shows "computeLoopBody op =
           (case mfmaF32 (getShapeType (computeMatrixType op)) of
              Some i \<Rightarrow> (success,
                  [(''laneIndex'', IndexCastOp ''loop.iv'' I32),
                   (''elemA'', vector_ExtractElementOp (opA op) ''laneIndex''),
                   (''elemB'', vector_ExtractElementOp (opB op) ''laneIndex''),
                   (''mfma'', ROCDL_mfma i (opCType op)
                                  [''elemA'', ''elemB'', ''loop.arg0'',
                                   ''cbsz'', ''abid'', ''blgp'']),
                   (''yield'', AffineYieldOp [''mfma''])])
            | None \<Rightarrow> (failure,
                  [(''laneIndex'', IndexCastOp ''loop.iv'' I32),
                   (''elemA'', vector_ExtractElementOp (opA op) ''laneIndex''),
                   (''elemB'', vector_ExtractElementOp (opB op) ''laneIndex'')]))"
  using assms by (simp add: computeLoopBody_def Let_def split: option.splits)

lemma computeLoopBody_other:
  assumes "opAType op = VectorType n t" and "\<not> isF16 t" and "\<not> isF32 t"
  shows "computeLoopBody op = (failure, [(''laneIndex'', IndexCastOp ''loop.iv'' I32)])"
  using assms by (simp add: computeLoopBody_def Let_def)

text \<open>
  C7, as stated, fails: for 16-bit inputs and a thread tile of sixteen elements the loop
  runs four times, at the induction values 0, 4, 8 and 12, not sixteen times.
\<close>

theorem compute_trip_count_counterexample:
  "fst (ValueMFMAComputeToRocDLConversion (exampleCompute T2x32x64 F16)) = Returns success
   \<and> getThreadTileSize (computeMatrixType (exampleCompute T2x32x64 F16)) = 16
   \<and> replacementLoop (snd (ValueMFMAComputeToRocDLConversion (exampleCompute T2x32x64 F16)))
       = Some (AffineForOp 0 16 4 [''c'']
                 (snd (computeLoopBody (exampleCompute T2x32x64 F16))))
   \<and> inductionValues 0 16 4 = [0, 4, 8, 12]
   \<and> tripCount (AffineForOp 0 16 4 [''c'']
                  (snd (computeLoopBody (exampleCompute T2x32x64 F16)))) = 4"
  by (simp add: compute_loop [where n = 16 and t = F16] exampleCompute_def
        exampleMatrixType_def computeLoopBody_def tripCount_def inductionValues.simps Let_def)

text \<open>
  C7, amended. A compute operation over vector operands is replaced by a loop from 0 up
  to the thread-tile size, exclusive, with step 4 for 16-bit inputs and step 1 otherwise,
  so that it runs (thread-tile size + step - 1) div step times. The pattern succeeds
  exactly when the input element type is 16- or 32-bit float and the shape is one of the
  four of the enumeration; the body then invokes exactly one compute intrinsic, the one
  the shape selects for that element type. Every other shape or element type makes the
  pattern return failure.
\<close>

theorem compute_lowering:
  assumes "opAType op = VectorType n t"
    and "isaVectorType (opBType op)" and "isaVectorType (opCType op)"
  shows "replacementLoop (snd (ValueMFMAComputeToRocDLConversion op))
           = Some (AffineForOp 0 (getThreadTileSize (computeMatrixType op))
                     (if isF16 t then 4 else 1) [opC op] (snd (computeLoopBody op)))
     \<and> tripCount (AffineForOp 0 (getThreadTileSize (computeMatrixType op))
                     (if isF16 t then 4 else 1) [opC op] (snd (computeLoopBody op)))
         = nat ((getThreadTileSize (computeMatrixType op) + (if isF16 t then 4 else 1) - 1)
                  div (if isF16 t then 4 else 1))
     \<and> fst (ValueMFMAComputeToRocDLConversion op)
         = (if isF16 t \<and> mfmaF16 (getShapeType (computeMatrixType op)) \<noteq> None
               \<or> isF32 t \<and> mfmaF32 (getShapeType (computeMatrixType op)) \<noteq> None
            then Returns success else Returns failure)
     \<and> bodyIntrinsics (snd (computeLoopBody op))
         = (if isF16 t then (case mfmaF16 (getShapeType (computeMatrixType op)) of
                               Some i \<Rightarrow> [i] | None \<Rightarrow> [])
            else if isF32 t then (case mfmaF32 (getShapeType (computeMatrixType op)) of
                               Some i \<Rightarrow> [i] | None \<Rightarrow> [])
            else [])
     \<and> (mfmaF16 (getShapeType (computeMatrixType op)) = None)
         = (\<exists>v. getShapeType (computeMatrixType op) = UnknownShape v)
     \<and> (mfmaF32 (getShapeType (computeMatrixType op)) = None)
         = (\<exists>v. getShapeType (computeMatrixType op) = UnknownShape v)"
proof (intro conjI)
  note loop = compute_loop [OF assms]
  show "replacementLoop (snd (ValueMFMAComputeToRocDLConversion op))
           = Some (AffineForOp 0 (getThreadTileSize (computeMatrixType op))
                     (if isF16 t then 4 else 1) [opC op] (snd (computeLoopBody op)))"
    by (simp add: loop)
  show "tripCount (AffineForOp 0 (getThreadTileSize (computeMatrixType op))
                     (if isF16 t then 4 else 1) [opC op] (snd (computeLoopBody op)))
         = nat ((getThreadTileSize (computeMatrixType op) + (if isF16 t then 4 else 1) - 1)
                  div (if isF16 t then 4 else 1))"
    by (simp add: tripCount_def length_inductionValues)
  have cases: "t = F16 \<or> t = F32 \<or> (\<not> isF16 t \<and> \<not> isF32 t)"
    by (cases t) simp_all
  show "fst (ValueMFMAComputeToRocDLConversion op)
         = (if isF16 t \<and> mfmaF16 (getShapeType (computeMatrixType op)) \<noteq> None
               \<or> isF32 t \<and> mfmaF32 (getShapeType (computeMatrixType op)) \<noteq> None
            then Returns success else Returns failure)"
    using cases assms(1)
    by (auto simp: loop computeLoopBody_F16 computeLoopBody_F32 computeLoopBody_other
             split: option.splits)
  show "bodyIntrinsics (snd (computeLoopBody op))
         = (if isF16 t then (case mfmaF16 (getShapeType (computeMatrixType op)) of
                               Some i \<Rightarrow> [i] | None \<Rightarrow> [])
            else if isF32 t then (case mfmaF32 (getShapeType (computeMatrixType op)) of
                               Some i \<Rightarrow> [i] | None \<Rightarrow> [])
            else [])"
    using cases assms(1)
    by (auto simp: computeLoopBody_F16 computeLoopBody_F32 computeLoopBody_other
                   bodyIntrinsics_def loadABLoop_def
             split: option.splits)
  show "(mfmaF16 (getShapeType (computeMatrixType op)) = None)
         = (\<exists>v. getShapeType (computeMatrixType op) = UnknownShape v)"
    by (cases "getShapeType (computeMatrixType op)") simp_all
  show "(mfmaF32 (getShapeType (computeMatrixType op)) = None)
         = (\<exists>v. getShapeType (computeMatrixType op) = UnknownShape v)"
    by (cases "getShapeType (computeMatrixType op)") simp_all
qed

theorem compute_lowering_witness:
  "opAType (exampleCompute T4x4x32 F32) = VectorType 16 F32
   \<and> isaVectorType (opBType (exampleCompute T4x4x32 F32))
   \<and> isaVectorType (opCType (exampleCompute T4x4x32 F32))
   \<and> fst (ValueMFMAComputeToRocDLConversion (exampleCompute T4x4x32 F32)) = Returns success
   \<and> bodyIntrinsics (snd (computeLoopBody (exampleCompute T4x4x32 F32))) = [mfma_f32_32x32x2f32]
   \<and> tripCount (AffineForOp 0 16 1 [''c''] (snd (computeLoopBody (exampleCompute T4x4x32 F32))))
       = 16"
proof -
  have a: "opAType (exampleCompute T4x4x32 F32) = VectorType 16 F32"
    and b: "isaVectorType (opBType (exampleCompute T4x4x32 F32))"
    and c: "isaVectorType (opCType (exampleCompute T4x4x32 F32))"
    by (simp_all add: exampleCompute_def)
  have d: "getThreadTileSize (computeMatrixType (exampleCompute T4x4x32 F32)) = 16"
    "getShapeType (computeMatrixType (exampleCompute T4x4x32 F32)) = T4x4x32"
    "opC (exampleCompute T4x4x32 F32) = ''c''"
    by (simp_all add: exampleCompute_def exampleMatrixType_def)
  from compute_lowering [OF a b c] a b c show ?thesis
    by (simp add: d)
qed

section \<open>Theorems: thread-index and block-dimension queries\<close>

lemma dimIndexToInteger_axis:
  "(a, i) \<in> {(''x'', 0 :: nat), (''y'', 1), (''z'', 2)} \<Longrightarrow> dimIndexToInteger a = int i"
  by auto

lemma dimIndexToInteger_other:
  "a \<notin> {''x'', ''y'', ''z''} \<Longrightarrow> dimIndexToInteger a = - 1"
  by auto

lemma getBlockDim_declared:
  assumes "(a, i) \<in> {(''x'', 0 :: nat), (''y'', 1), (''z'', 2)}"
    and "i < length bs" and "0 \<le> bs ! i" and "bs ! i < 2 ^ 64"
  shows "getBlockDim \<lparr> dimension = a,
                        parentFuncOp = Some \<lparr> gridSize = g, blockSize = Some bs \<rparr>,
                        parentGPUFuncOp = pg \<rparr> a = Some (Some (nat (bs ! i)))"
proof -
  have "dimIndexToInteger a = int i"
    using assms(1) by (rule dimIndexToInteger_axis)
  moreover have "to_uint64 (bs ! i) = nat (bs ! i)"
    using assms(3,4) by (simp add: to_uint64_def)
  ultimately show ?thesis
    using assms(2) by (simp add: getBlockDim_def Let_def del: dimIndexToInteger.simps)
qed

lemma getBlockDim_no_attribute:
  "blockSize fn = None
     \<Longrightarrow> getBlockDim \<lparr> dimension = e, parentFuncOp = Some fn, parentGPUFuncOp = pg \<rparr> e
           = Some None"
  by (simp add: getBlockDim_def)

lemma getBlockDim_other_axis:
  "d \<notin> {''x'', ''y'', ''z''}
     \<Longrightarrow> getBlockDim \<lparr> dimension = d, parentFuncOp = Some fn, parentGPUFuncOp = pg \<rparr> d
           = Some None"
  using dimIndexToInteger_other [of d]
  by (simp add: getBlockDim_def Let_def del: dimIndexToInteger.simps split: option.splits)

lemma getBlockDim_no_FuncOp:
  "getBlockDim \<lparr> dimension = e, parentFuncOp = None, parentGPUFuncOp = pg \<rparr> e = Some None"
  by (simp add: getBlockDim_def)

lemma printOp_ThreadIdOp_run:
  assumes "hasRuntimeCUDA env" "fst (printIndexType env) = success"
    and "getBlockDim tidOp (dimension tidOp) = Some c"
  shows "printOp_ThreadIdOp env tidOp =
           (Returns success,
            Str ''const '' # snd (printIndexType env)
            @ [Str '' '', Str (getOrCreateName env (''threadIdx_'' @ dimension tidOp @ ''_'')),
               Str '' = '']
            @ (case c of
                 Some v \<Rightarrow> [Str ''(threadIdx.'', Str (dimension tidOp), Str ''%'', UInt v,
                            Str '')'']
               | None \<Rightarrow> [Str ''threadIdx.'', Str (dimension tidOp)]),
            [])"
  using assms
  by (simp add: printOp_ThreadIdOp_def printGPUIndexType_def Let_def split: option.splits)

lemma printOp_BlockDimOp_run:
  assumes "hasRuntimeCUDA env" "fst (printIndexType env) = success"
    and "getBlockDim blockDimOp (dimension blockDimOp) = Some c"
  shows "printOp_BlockDimOp env blockDimOp =
           (Returns success,
            Str ''const '' # snd (printIndexType env)
            @ [Str '' '', Str (getOrCreateName env (''blockDim_'' @ dimension blockDimOp @ ''_'')),
               Str '' = '']
            @ (case c of
                 Some v \<Rightarrow> [UInt v]
               | None \<Rightarrow> [Str ''blockDim.'', Str (dimension blockDimOp)]),
            [])"
  using assms
  by (simp add: printOp_BlockDimOp_def printGPUIndexType_def Let_def split: option.splits)

text \<open>
  C3. Let \<open>bs\<close> be a declared block-size attribute with the value \<open>B\<close> (a non-negative
  64-bit number) at the index \<open>i\<close> of the axis \<open>a\<close>, where x has index 0, y index 1 and z
  index 2; let the CUDA runtime be set and the index type printed.

  The rewrite pattern reads the attribute of the enclosing \<^verbatim>\<open>gpu::GPUFuncOp\<close> and
  replaces a block-dimension query on \<open>a\<close> by the index constant \<open>B\<close>. The printer reads
  the attribute of the enclosing builtin \<^verbatim>\<open>FuncOp\<close>: inside such a function it writes a
  thread-id query on \<open>a\<close> as \<^verbatim>\<open>(threadIdx.a%B)\<close> and a block-dimension query as the
  literal \<open>B\<close>. Inside a kernel that is a \<^verbatim>\<open>gpu.func\<close>, with no builtin function around
  it, the printer does not find the attribute the kernel declares and writes the plain
  \<^verbatim>\<open>threadIdx.a\<close> and \<^verbatim>\<open>blockDim.a\<close>: there the modulo and the literal are missing.

  Where the enclosing function has no block-size attribute (\<open>fn0\<close>, any axis string \<open>e\<close>)
  or the axis string \<open>d\<close> is not one of x, y, z, the printer writes the plain hardware
  read, and the pattern declines without any rewriter call.
\<close>

theorem index_query_lowering:
  assumes axis: "(a, i) \<in> {(''x'', 0 :: nat), (''y'', 1), (''z'', 2)}"
    and declared: "i < length bs" "bs ! i = B"
    and range: "0 \<le> B" "B < 2 ^ 64"
    and env: "hasRuntimeCUDA env" "fst (printIndexType env) = success"
    and no_attribute: "blockSize fn0 = None"
    and other_axis: "d \<notin> {''x'', ''y'', ''z''}"
  shows "(printOp_ThreadIdOp env
           \<lparr> dimension = a, parentFuncOp = Some \<lparr> gridSize = g, blockSize = Some bs \<rparr>,
             parentGPUFuncOp = pg \<rparr>
         = (Returns success,
            Str ''const '' # snd (printIndexType env)
            @ [Str '' '', Str (getOrCreateName env (''threadIdx_'' @ a @ ''_'')), Str '' = '',
               Str ''(threadIdx.'', Str a, Str ''%'', UInt (nat B), Str '')''],
            []))
     \<and> (printOp_BlockDimOp env
           \<lparr> dimension = a, parentFuncOp = Some \<lparr> gridSize = g, blockSize = Some bs \<rparr>,
             parentGPUFuncOp = pg \<rparr>
         = (Returns success,
            Str ''const '' # snd (printIndexType env)
            @ [Str '' '', Str (getOrCreateName env (''blockDim_'' @ a @ ''_'')), Str '' = '',
               UInt (nat B)],
            []))
     \<and> (ResolveBlockDimPattern
           \<lparr> dimension = a, parentFuncOp = pf,
             parentGPUFuncOp = Some \<lparr> gridSize = g, blockSize = Some bs \<rparr> \<rparr>
         = (Returns success, [replaceOpWithNewOp (''val'', ConstantIndexOp B)]))
     \<and> (printOp_ThreadIdOp env
           \<lparr> dimension = a, parentFuncOp = None,
             parentGPUFuncOp = Some \<lparr> gridSize = g, blockSize = Some bs \<rparr> \<rparr>
         = (Returns success,
            Str ''const '' # snd (printIndexType env)
            @ [Str '' '', Str (getOrCreateName env (''threadIdx_'' @ a @ ''_'')), Str '' = '',
               Str ''threadIdx.'', Str a],
            []))
     \<and> (printOp_BlockDimOp env
           \<lparr> dimension = a, parentFuncOp = None,
             parentGPUFuncOp = Some \<lparr> gridSize = g, blockSize = Some bs \<rparr> \<rparr>
         = (Returns success,
            Str ''const '' # snd (printIndexType env)
            @ [Str '' '', Str (getOrCreateName env (''blockDim_'' @ a @ ''_'')), Str '' = '',
               Str ''blockDim.'', Str a],
            []))
     \<and> (printOp_ThreadIdOp env \<lparr> dimension = e, parentFuncOp = Some fn0, parentGPUFuncOp = pg \<rparr>
         = (Returns success,
            Str ''const '' # snd (printIndexType env)
            @ [Str '' '', Str (getOrCreateName env (''threadIdx_'' @ e @ ''_'')), Str '' = '',
               Str ''threadIdx.'', Str e],
            []))
     \<and> (printOp_ThreadIdOp env \<lparr> dimension = d, parentFuncOp = Some fn1, parentGPUFuncOp = pg \<rparr>
         = (Returns success,
            Str ''const '' # snd (printIndexType env)
            @ [Str '' '', Str (getOrCreateName env (''threadIdx_'' @ d @ ''_'')), Str '' = '',
               Str ''threadIdx.'', Str d],
            []))
     \<and> (printOp_BlockDimOp env \<lparr> dimension = e, parentFuncOp = Some fn0, parentGPUFuncOp = pg \<rparr>
         = (Returns success,
            Str ''const '' # snd (printIndexType env)
            @ [Str '' '', Str (getOrCreateName env (''blockDim_'' @ e @ ''_'')), Str '' = '',
               Str ''blockDim.'', Str e],
            []))
     \<and> (printOp_BlockDimOp env \<lparr> dimension = d, parentFuncOp = Some fn1, parentGPUFuncOp = pg \<rparr>
         = (Returns success,
            Str ''const '' # snd (printIndexType env)
            @ [Str '' '', Str (getOrCreateName env (''blockDim_'' @ d @ ''_'')), Str '' = '',
               Str ''blockDim.'', Str d],
            []))
     \<and> (ResolveBlockDimPattern \<lparr> dimension = e, parentFuncOp = pf, parentGPUFuncOp = Some fn0 \<rparr>
         = (Returns failure, []))
     \<and> (ResolveBlockDimPattern \<lparr> dimension = d, parentFuncOp = pf, parentGPUFuncOp = Some fn1 \<rparr>
         = (Returns failure, []))
     \<and> (ResolveBlockDimPattern \<lparr> dimension = e, parentFuncOp = pf, parentGPUFuncOp = None \<rparr>
         = (Returns failure, []))"
proof -
  have idx: "dimIndexToInteger a = int i"
    using axis by (rule dimIndexToInteger_axis)
  have b: "\<And>pg. getBlockDim \<lparr> dimension = a,
                         parentFuncOp = Some \<lparr> gridSize = g, blockSize = Some bs \<rparr>,
                         parentGPUFuncOp = pg \<rparr> a = Some (Some (nat B))"
    using getBlockDim_declared [OF axis declared(1)] declared(2) range by simp
  have 1: "printOp_ThreadIdOp env
           \<lparr> dimension = a, parentFuncOp = Some \<lparr> gridSize = g, blockSize = Some bs \<rparr>,
             parentGPUFuncOp = pg \<rparr>
         = (Returns success,
            Str ''const '' # snd (printIndexType env)
            @ [Str '' '', Str (getOrCreateName env (''threadIdx_'' @ a @ ''_'')), Str '' = '',
               Str ''(threadIdx.'', Str a, Str ''%'', UInt (nat B), Str '')''],
            [])"
    using printOp_ThreadIdOp_run [OF env, where c = "Some (nat B)"] b by simp
  have 2: "printOp_BlockDimOp env
           \<lparr> dimension = a, parentFuncOp = Some \<lparr> gridSize = g, blockSize = Some bs \<rparr>,
             parentGPUFuncOp = pg \<rparr>
         = (Returns success,
            Str ''const '' # snd (printIndexType env)
            @ [Str '' '', Str (getOrCreateName env (''blockDim_'' @ a @ ''_'')), Str '' = '',
               UInt (nat B)],
            [])"
    using printOp_BlockDimOp_run [OF env, where c = "Some (nat B)"] b by simp
  have 3: "ResolveBlockDimPattern
           \<lparr> dimension = a, parentFuncOp = pf,
             parentGPUFuncOp = Some \<lparr> gridSize = g, blockSize = Some bs \<rparr> \<rparr>
         = (Returns success, [replaceOpWithNewOp (''val'', ConstantIndexOp B)])"
    using idx declared by (simp add: ResolveBlockDimPattern_def Let_def del: dimIndexToInteger.simps)
  have raw_t: "\<And>op. getBlockDim op (dimension op) = Some None \<Longrightarrow>
           printOp_ThreadIdOp env op
         = (Returns success,
            Str ''const '' # snd (printIndexType env)
            @ [Str '' '', Str (getOrCreateName env (''threadIdx_'' @ dimension op @ ''_'')),
               Str '' = '', Str ''threadIdx.'', Str (dimension op)],
            [])"
    using printOp_ThreadIdOp_run [OF env, where c = None] by simp
  have raw_b: "\<And>op. getBlockDim op (dimension op) = Some None \<Longrightarrow>
           printOp_BlockDimOp env op
         = (Returns success,
            Str ''const '' # snd (printIndexType env)
            @ [Str '' '', Str (getOrCreateName env (''blockDim_'' @ dimension op @ ''_'')),
               Str '' = '', Str ''blockDim.'', Str (dimension op)],
            [])"
    using printOp_BlockDimOp_run [OF env, where c = None] by simp
  have 10: "ResolveBlockDimPattern \<lparr> dimension = e, parentFuncOp = pf, parentGPUFuncOp = Some fn0 \<rparr>
         = (Returns failure, [])"
    using no_attribute by (simp add: ResolveBlockDimPattern_def Let_def del: dimIndexToInteger.simps)
  have 11: "ResolveBlockDimPattern \<lparr> dimension = d, parentFuncOp = pf, parentGPUFuncOp = Some fn1 \<rparr>
         = (Returns failure, [])"
    using dimIndexToInteger_other [OF other_axis]
    by (simp add: ResolveBlockDimPattern_def Let_def del: dimIndexToInteger.simps
             split: option.splits)
  have 12: "ResolveBlockDimPattern \<lparr> dimension = e, parentFuncOp = pf, parentGPUFuncOp = None \<rparr>
         = (Returns failure, [])"
    by (simp add: ResolveBlockDimPattern_def)
  show ?thesis
    using 1 2 3 10 11 12
      raw_t [of "\<lparr> dimension = a, parentFuncOp = None,
                   parentGPUFuncOp = Some \<lparr> gridSize = g, blockSize = Some bs \<rparr> \<rparr>"]
      raw_b [of "\<lparr> dimension = a, parentFuncOp = None,
                   parentGPUFuncOp = Some \<lparr> gridSize = g, blockSize = Some bs \<rparr> \<rparr>"]
      raw_t [of "\<lparr> dimension = e, parentFuncOp = Some fn0, parentGPUFuncOp = pg \<rparr>"]
      raw_t [of "\<lparr> dimension = d, parentFuncOp = Some fn1, parentGPUFuncOp = pg \<rparr>"]
      raw_b [of "\<lparr> dimension = e, parentFuncOp = Some fn0, parentGPUFuncOp = pg \<rparr>"]
      raw_b [of "\<lparr> dimension = d, parentFuncOp = Some fn1, parentGPUFuncOp = pg \<rparr>"]
      getBlockDim_no_FuncOp getBlockDim_no_attribute [OF no_attribute]
      getBlockDim_other_axis [OF other_axis]
    by simp
qed

theorem index_query_lowering_witness:
  "printOp_ThreadIdOp exampleEnv
      \<lparr> dimension = ''y'',
        parentFuncOp = Some \<lparr> gridSize = None, blockSize = Some [64, 8, 2] \<rparr>,
        parentGPUFuncOp = None \<rparr>
     = (Returns success,
        [Str ''const '', Str ''int'', Str '' '', Str ''threadIdx_y_0'', Str '' = '',
         Str ''(threadIdx.'', Str ''y'', Str ''%'', UInt 8, Str '')''],
        [])
   \<and> ResolveBlockDimPattern
      \<lparr> dimension = ''y'', parentFuncOp = None,
        parentGPUFuncOp = Some \<lparr> gridSize = None, blockSize = Some [64, 8, 2] \<rparr> \<rparr>
     = (Returns success, [replaceOpWithNewOp (''val'', ConstantIndexOp 8)])
   \<and> printOp_ThreadIdOp exampleEnv
      \<lparr> dimension = ''y'', parentFuncOp = None,
        parentGPUFuncOp = Some \<lparr> gridSize = None, blockSize = Some [64, 8, 2] \<rparr> \<rparr>
     = (Returns success,
        [Str ''const '', Str ''int'', Str '' '', Str ''threadIdx_y_0'', Str '' = '',
         Str ''threadIdx.'', Str ''y''],
        [])
   \<and> printOp_ThreadIdOp exampleEnv
      \<lparr> dimension = ''z'',
        parentFuncOp = Some \<lparr> gridSize = None, blockSize = None \<rparr>,
        parentGPUFuncOp = None \<rparr>
     = (Returns success,
        [Str ''const '', Str ''int'', Str '' '', Str ''threadIdx_z_0'', Str '' = '',
         Str ''threadIdx.'', Str ''z''],
        [])
   \<and> printOp_ThreadIdOp exampleEnv
      \<lparr> dimension = ''w'',
        parentFuncOp = Some \<lparr> gridSize = None, blockSize = Some [64, 8, 2] \<rparr>,
        parentGPUFuncOp = None \<rparr>
     = (Returns success,
        [Str ''const '', Str ''int'', Str '' '', Str ''threadIdx_w_0'', Str '' = '',
         Str ''threadIdx.'', Str ''w''],
        [])
   \<and> ResolveBlockDimPattern
      \<lparr> dimension = ''w'', parentFuncOp = None,
        parentGPUFuncOp = Some \<lparr> gridSize = None, blockSize = Some [64, 8, 2] \<rparr> \<rparr>
     = (Returns failure, [])"
proof -
  have h: "(''y'', 1) \<in> {(''x'', 0 :: nat), (''y'', 1), (''z'', 2)}"
    "1 < length [64, 8, 2 :: int]"
    "[64, 8, 2 :: int] ! 1 = 8"
    "(0 :: int) \<le> 8" "(8 :: int) < 2 ^ 64"
    "hasRuntimeCUDA exampleEnv" "fst (printIndexType exampleEnv) = success"
    "blockSize \<lparr> gridSize = None, blockSize = None \<rparr> = None"
    "''w'' \<notin> {''x'', ''y'', ''z''}"
    by (simp_all add: exampleEnv_def)
  from index_query_lowering
         [OF h, where g = None and pg = None and pf = None and e = "''z''"
            and ?fn1.0 = "\<lparr> gridSize = None, blockSize = Some [64, 8, 2] \<rparr>"]
  show ?thesis
    by (simp add: exampleEnv_def)
qed

section \<open>Theorems: device function and launcher pairing\<close>

lemma lookupSymbolIn_Some:
  "lookupSymbolIn nm xs s = Some i \<Longrightarrow> i < length xs \<and> nm (xs ! i) = s"
proof (induction xs arbitrary: i)
  case Nil
  then show ?case by simp
next
  case (Cons x xs)
  show ?case
  proof (cases "nm x = s")
    case True
    with Cons.prems show ?thesis by simp
  next
    case False
    with Cons.prems obtain i' where "lookupSymbolIn nm xs s = Some i'" "i = Suc i'"
      by auto
    with Cons.IH [of i'] show ?thesis by simp
  qed
qed

lemma lookupSymbolIn_same_name:
  "i < length xs \<Longrightarrow> nm x = nm (xs ! i)
     \<Longrightarrow> lookupSymbolIn nm (xs[i := x]) s = lookupSymbolIn nm xs s"
proof (induction xs arbitrary: i)
  case Nil
  then show ?case by simp
next
  case (Cons y ys)
  then show ?case by (cases i) simp_all
qed

lemma lookupSymbolIn_renamed:
  "lookupSymbolIn nm xs s = None \<Longrightarrow> i < length xs \<Longrightarrow> nm x = s
     \<Longrightarrow> lookupSymbolIn nm (xs[i := x]) s = Some i"
proof (induction xs arbitrary: i)
  case Nil
  then show ?case by simp
next
  case (Cons y ys)
  then show ?case by (cases i) (auto split: if_splits)
qed

text \<open>
  C4. Let the function \<open>host\<close> at position \<open>i\<close> carry the header-declaration and
  raw-pointer-API attributes, let its entry block hold one call and the terminator, let
  the callee resolve to a function whose last operation before the terminator launches
  the kernel \<open>leaf\<close> of the GPU module \<open>root\<close>, let that kernel exist, and let the GPU
  module hold no symbol named after the host with the suffix \<^verbatim>\<open>__gpu__\<close>. Then the
  pattern succeeds; the kernel, at its old position, is named after the host with that
  suffix and carries the runtime of the pattern, the execution target GPU and the two
  marker attributes; the launch refers to the new name, which resolves to the renamed
  kernel; and the host carries the runtime of the pattern.
\<close>

theorem launcher_pairing:
  assumes host: "funcAt m i = Some host"
    and tagged: "hasAttr (func_attrs host) HeaderDeclAttrName"
                "hasAttr (func_attrs host) RawPointerAPIAttrName"
    and body: "func_front host = Some [CallOp callee, t]"
    and callee: "lookupSymbolIn symbol_name m callee = Some j" "funcAt m j = Some calleeFn"
    and launch: "func_front calleeFn = Some (pre @ [LaunchFuncOp root leaf, t'])"
    and gpu_module: "lookupSymbolIn symbol_name m root = Some k"
    and kernel: "gpuFuncAt m k l = Some launched"
    and leaf: "\<exists>gm. m ! k = GPUModuleOp_sym gm
                  \<and> lookupSymbolIn gpu_symbol_name (gpu_module_body gm) leaf = Some l
                  \<and> lookupSymbolIn gpu_symbol_name (gpu_module_body gm)
                       (func_name host @ ''__gpu__'') = None"
  shows "fst (CreateDeviceFuncLauncherPairPattern target m i) = Returns success
     \<and> gpuFuncAt (snd (CreateDeviceFuncLauncherPairPattern target m i)) k l
         = Some \<lparr> gpu_func_name = func_name host @ ''__gpu__'',
                  gpu_func_attrs =
                    (gpu_func_attrs launched)
                      (ExecRuntimeAttrName \<mapsto> ExecutionRuntimeAttr target,
                       ExecTargetAttrName \<mapsto> ExecutionTargetAttr GPU,
                       HeaderDeclAttrName \<mapsto> UnitAttr,
                       RawPointerAPIAttrName \<mapsto> UnitAttr) \<rparr>
     \<and> funcAt (snd (CreateDeviceFuncLauncherPairPattern target m i)) j
         = Some (calleeFn\<lparr> func_front :=
                   Some (pre @ [LaunchFuncOp root (func_name host @ ''__gpu__''), t']) \<rparr>)
     \<and> resolveKernel (snd (CreateDeviceFuncLauncherPairPattern target m i)) root
           (func_name host @ ''__gpu__'')
         = gpuFuncAt (snd (CreateDeviceFuncLauncherPairPattern target m i)) k l
     \<and> funcAt (snd (CreateDeviceFuncLauncherPairPattern target m i)) i
         = Some (host\<lparr> func_attrs :=
                   (func_attrs host)(ExecRuntimeAttrName \<mapsto> ExecutionRuntimeAttr target) \<rparr>)"
proof -
  let ?new = "func_name host @ ''__gpu__''"
  from leaf obtain gm where
    gm: "m ! k = GPUModuleOp_sym gm"
    and l: "lookupSymbolIn gpu_symbol_name (gpu_module_body gm) leaf = Some l"
    and fresh: "lookupSymbolIn gpu_symbol_name (gpu_module_body gm) ?new = None"
    by blast
  from host have i: "i < length m" "m ! i = FuncOp_sym host"
    by (auto simp: funcAt_def split: if_splits module_symbol.splits)
  from callee have j: "j < length m" "m ! j = FuncOp_sym calleeFn"
    by (auto simp: funcAt_def split: if_splits module_symbol.splits)
  from gpu_module have k: "k < length m"
    using lookupSymbolIn_Some by fastforce
  from l have l_len: "l < length (gpu_module_body gm)"
    using lookupSymbolIn_Some by fastforce
  from kernel gm k l_len have g: "gpu_module_body gm ! l = GPUFuncOp_sym launched"
    by (auto simp: gpuFuncAt_def split: gpu_module_symbol.splits)
  have ij: "i \<noteq> j"
  proof
    assume "i = j"
    with i j have "host = calleeFn" by simp
    with body launch have "[CallOp callee, t] = pre @ [LaunchFuncOp root leaf, t']" by simp
    then show False by (cases pre) auto
  qed
  have ik: "i \<noteq> k" and jk: "j \<noteq> k"
    using i j gm by auto
  define renamed where
    "renamed = \<lparr> gpu_func_name = ?new,
                 gpu_func_attrs =
                   (gpu_func_attrs launched)
                     (ExecRuntimeAttrName \<mapsto> ExecutionRuntimeAttr target,
                      ExecTargetAttrName \<mapsto> ExecutionTargetAttr GPU,
                      HeaderDeclAttrName \<mapsto> UnitAttr,
                      RawPointerAPIAttrName \<mapsto> UnitAttr) \<rparr>"
  define gm' where
    "gm' = gm\<lparr> gpu_module_body := (gpu_module_body gm)[l := GPUFuncOp_sym renamed] \<rparr>"
  define callee' where
    "callee' = calleeFn\<lparr> func_front := Some (pre @ [LaunchFuncOp root ?new, t']) \<rparr>"
  define host' where
    "host' = host\<lparr> func_attrs :=
               (func_attrs host)(ExecRuntimeAttrName \<mapsto> ExecutionRuntimeAttr target) \<rparr>"
  define m' where
    "m' = m[k := GPUModuleOp_sym gm', j := FuncOp_sym callee', i := FuncOp_sym host']"
  have upd: "(pre @ [LaunchFuncOp root leaf, t'])[length pre := LaunchFuncOp root ?new]
               = pre @ [LaunchFuncOp root ?new, t']"
    by (simp add: list_update_append)
  have run: "CreateDeviceFuncLauncherPairPattern target m i = (Returns success, m')"
    using i j k tagged body callee launch gpu_module gm l g fresh ij ik jk upd
    by (simp add: CreateDeviceFuncLauncherPairPattern_def Let_def setAttr_def m'_def gm'_def
          callee'_def host'_def renamed_def)
  have at_k: "m' ! k = GPUModuleOp_sym gm'"
    using k ik jk by (simp add: m'_def)
  have kern: "gpuFuncAt m' k l = Some renamed"
    using k l_len at_k by (simp add: gpuFuncAt_def gm'_def m'_def)
  have names: "lookupSymbolIn symbol_name m' root = Some k"
  proof -
    have "lookupSymbolIn symbol_name (m[k := GPUModuleOp_sym gm']) root = Some k"
      using k gm gpu_module by (simp add: lookupSymbolIn_same_name gm'_def)
    then have "lookupSymbolIn symbol_name
                 (m[k := GPUModuleOp_sym gm', j := FuncOp_sym callee']) root = Some k"
      using j jk by (simp add: lookupSymbolIn_same_name callee'_def)
    then show ?thesis
      using i ij ik by (simp add: m'_def lookupSymbolIn_same_name host'_def)
  qed
  have leaf': "lookupSymbolIn gpu_symbol_name (gpu_module_body gm') ?new = Some l"
    using fresh l_len by (simp add: gm'_def lookupSymbolIn_renamed renamed_def)
  have res: "resolveKernel m' root ?new = Some renamed"
    using names at_k leaf' l_len by (simp add: resolveKernel_def gm'_def)
  have at_j: "funcAt m' j = Some callee'"
    using j ij by (simp add: funcAt_def m'_def)
  have at_i: "funcAt m' i = Some host'"
    using i by (simp add: funcAt_def m'_def)
  show ?thesis
    unfolding run fst_conv snd_conv
    using kern res at_j at_i
    by (simp add: renamed_def callee'_def host'_def)
qed

theorem launcher_pairing_witness:
  "fst (CreateDeviceFuncLauncherPairPattern ROCM exampleModule 0) = Returns success
   \<and> gpuFuncAt (snd (CreateDeviceFuncLauncherPairPattern ROCM exampleModule 0)) 2 0
       = Some \<lparr> gpu_func_name = ''f__gpu__'',
                gpu_func_attrs =
                  [ExecRuntimeAttrName \<mapsto> ExecutionRuntimeAttr ROCM,
                   ExecTargetAttrName \<mapsto> ExecutionTargetAttr GPU,
                   HeaderDeclAttrName \<mapsto> UnitAttr,
                   RawPointerAPIAttrName \<mapsto> UnitAttr] \<rparr>
   \<and> resolveKernel (snd (CreateDeviceFuncLauncherPairPattern ROCM exampleModule 0))
         ''gpu_mod'' ''f__gpu__''
       = gpuFuncAt (snd (CreateDeviceFuncLauncherPairPattern ROCM exampleModule 0)) 2 0
   \<and> map_option func_front
         (funcAt (snd (CreateDeviceFuncLauncherPairPattern ROCM exampleModule 0)) 1)
       = Some (Some [OtherOp ''constant'', LaunchFuncOp ''gpu_mod'' ''f__gpu__'', ReturnOp])
   \<and> map_option (\<lambda>f. func_attrs f ExecRuntimeAttrName)
         (funcAt (snd (CreateDeviceFuncLauncherPairPattern ROCM exampleModule 0)) 0)
       = Some (Some (ExecutionRuntimeAttr ROCM))"
proof -
  let ?host = "\<lparr> func_name = ''f'',
                  func_attrs = [HeaderDeclAttrName \<mapsto> UnitAttr, RawPointerAPIAttrName \<mapsto> UnitAttr],
                  func_front = Some [CallOp ''f_impl'', ReturnOp] \<rparr>"
  let ?callee = "\<lparr> func_name = ''f_impl'', func_attrs = Map.empty,
                    func_front = Some [OtherOp ''constant'', LaunchFuncOp ''gpu_mod'' ''kernel0'',
                                       ReturnOp] \<rparr>"
  let ?kernel = "\<lparr> gpu_func_name = ''kernel0'', gpu_func_attrs = Map.empty \<rparr>"
  have h: "funcAt exampleModule 0 = Some ?host"
    "hasAttr (func_attrs ?host) HeaderDeclAttrName"
    "hasAttr (func_attrs ?host) RawPointerAPIAttrName"
    "func_front ?host = Some [CallOp ''f_impl'', ReturnOp]"
    "lookupSymbolIn symbol_name exampleModule ''f_impl'' = Some 1"
    "funcAt exampleModule 1 = Some ?callee"
    "func_front ?callee
       = Some ([OtherOp ''constant''] @ [LaunchFuncOp ''gpu_mod'' ''kernel0'', ReturnOp])"
    "lookupSymbolIn symbol_name exampleModule ''gpu_mod'' = Some 2"
    "gpuFuncAt exampleModule 2 0 = Some ?kernel"
    "\<exists>gm. exampleModule ! 2 = GPUModuleOp_sym gm
          \<and> lookupSymbolIn gpu_symbol_name (gpu_module_body gm) ''kernel0'' = Some 0
          \<and> lookupSymbolIn gpu_symbol_name (gpu_module_body gm)
               (func_name ?host @ ''__gpu__'') = None"
    by (simp_all add: exampleModule_def funcAt_def gpuFuncAt_def hasAttr_def)
  from launcher_pairing [OF h, of ROCM] show ?thesis
    by simp
qed

section \<open>Theorems: barrier hoisting\<close>








lemma nth_le_sum_list_map:
  "i < length xs \<Longrightarrow> (f (xs ! i) :: nat) \<le> sum_list (map f xs)"
proof (induction xs arbitrary: i)
  case Nil
  then show ?case by simp
next
  case (Cons x xs)
  show ?case
  proof (cases i)
    case 0
    then show ?thesis by simp
  next
    case (Suc j)
    with Cons.prems have "j < length xs" by simp
    from Cons.IH [OF this] Suc show ?thesis by simp
  qed
qed

lemma barriersIn_block_le:
  assumes "b < length bs" "i < length (bs ! b)"
  shows "barriersIn (bs ! b ! i) \<le> sum_list (map (\<lambda>blk. sum_list (map barriersIn blk)) bs)"
proof -
  have "barriersIn (bs ! b ! i) \<le> sum_list (map barriersIn (bs ! b))"
    using assms(2) by (rule nth_le_sum_list_map)
  also have "\<dots> \<le> sum_list (map (\<lambda>blk. sum_list (map barriersIn blk)) bs)"
    using assms(1) by (rule nth_le_sum_list_map)
  finally show ?thesis .
qed

lemma barriersIn_opAt_le:
  "opAt r p = Some x \<Longrightarrow> barriersIn x \<le> barriersIn r"
proof (induction p arbitrary: r)
  case Nil
  then show ?case by simp
next
  case (Cons a p)
  obtain b i where a: "a = (b, i)" by (cases a)
  obtain k bs where r: "r = Operation k bs" by (cases r)
  from Cons.prems have v: "b < length bs" "i < length (bs ! b)" "opAt (bs ! b ! i) p = Some x"
    by (auto simp: a r split: if_splits)
  from Cons.IH [OF v(3)] barriersIn_block_le [OF v(1,2)] show ?case
    by (simp add: r)
qed




lemma GetHighestAncestorOfType_Nil [simp]:
  "GetHighestAncestorOfType T r [] = None"
  by (simp add: GetHighestAncestorOfType_def)

lemma GetHighestAncestorOfType_Cons:
  "GetHighestAncestorOfType T (Operation k bs) ((b, i) # p) =
     (if T k then Some []
      else if b < length bs \<and> i < length (bs ! b)
      then map_option ((#) (b, i)) (GetHighestAncestorOfType T (bs ! b ! i) p)
      else None)"
  by (simp add: GetHighestAncestorOfType_def split: list.splits)

lemma isAncestor_simps [simp]:
  "isAncestor [] s = True"
  "isAncestor (a # as) [] = False"
  "isAncestor (a # as) (a # s) = isAncestor as s"
  by (auto simp: isAncestor_def)

lemma GetAncestorIfOp_Cons:
  "GetAncestorIfOp (Operation k bs) ((b, i) # p) =
     (if isConditional k then Some []
      else if b < length bs \<and> i < length (bs ! b)
      then map_option ((#) (b, i)) (GetAncestorIfOp (bs ! b ! i) p)
      else None)"
proof (cases k)
  case (vir_BarrierOp sc)
  then show ?thesis
    by (auto simp: GetAncestorIfOp_def GetHighestAncestorOfType_Cons isConditional_def Let_def
             split: option.splits)
next
  case AffineIfOp
  then show ?thesis
    by (auto simp: GetAncestorIfOp_def GetHighestAncestorOfType_Cons isConditional_def Let_def
             split: option.splits)
next
  case scf_IfOp
  then show ?thesis
    by (auto simp: GetAncestorIfOp_def GetHighestAncestorOfType_Cons isConditional_def Let_def
             split: option.splits)
next
  case (UnrelatedOp n)
  then show ?thesis
    by (auto simp: GetAncestorIfOp_def GetHighestAncestorOfType_Cons isConditional_def Let_def
             split: option.splits)
qed

lemma GetAncestorIfOp_highest:
  "GetAncestorIfOp root p = GetHighestAncestorOfType isConditional root p"
proof (induction p arbitrary: root)
  case Nil
  show ?case by (simp add: GetAncestorIfOp_def)
next
  case (Cons a p)
  obtain b i where a: "a = (b, i)" by (cases a)
  obtain k bs where r: "root = Operation k bs" by (cases root)
  show ?case
    by (simp add: a r GetAncestorIfOp_Cons GetHighestAncestorOfType_Cons Cons.IH)
qed




lemma kindOf_eraseInBlock [simp]: "kindOf (eraseInBlock b i y) = kindOf y"
  by (cases y) simp





lemma hoisted_no_conditional_ancestor:
  "hoisted r \<Longrightarrow> opAt r p = Some x \<Longrightarrow> isBarrier (kindOf x)
     \<Longrightarrow> ancestorsOfType isConditional r p = []"
proof (induction p arbitrary: r)
  case Nil
  then show ?case by simp
next
  case (Cons a p)
  obtain b i where a: "a = (b, i)" by (cases a)
  obtain k bs where r: "r = Operation k bs" by (cases r)
  from Cons.prems(2) have v: "b < length bs" "i < length (bs ! b)" "opAt (bs ! b ! i) p = Some x"
    by (auto simp: a r split: if_splits)
  have x: "1 \<le> barriersIn x"
    using Cons.prems(3) by (cases x) simp
  show ?case
  proof (cases "isConditional k")
    case True
    with Cons.prems(1) have "sum_list (map (\<lambda>blk. sum_list (map barriersIn blk)) bs) = 0"
      by (simp add: r)
    with barriersIn_block_le [OF v(1,2)] have "barriersIn (bs ! b ! i) = 0" by simp
    with barriersIn_opAt_le [OF v(3)] x show ?thesis by simp
  next
    case False
    with Cons.prems(1) v have "hoisted (bs ! b ! i)"
      by (simp add: r list_all_length)
    from Cons.IH [OF this v(3) Cons.prems(3)] False show ?thesis
      by (simp add: a r)
  qed
qed
























text \<open>
  C9. In a module where no barrier stands inside a conditional, the rewrite applied to
  any barrier succeeds and leaves the module as it is.
\<close>

theorem hoisting_idempotent:
  assumes "hoisted root"
    and "opAt root p = Some (Operation (vir_BarrierOp scope) bs)"
  shows "ConditionalBarrierHoistingPattern root p = (Returns success, root)"
proof -
  have "ancestorsOfType isConditional root p = []"
    using hoisted_no_conditional_ancestor [OF assms] by simp
  then have "GetAncestorIfOp root p = None"
    by (simp add: GetAncestorIfOp_highest GetHighestAncestorOfType_def)
  with assms(2) show ?thesis
    by (simp add: ConditionalBarrierHoistingPattern_def)
qed

theorem hoisting_idempotent_witness:
  "hoisted barrierOutsideIf
   \<and> opAt barrierOutsideIf [(0, 0), (0, 2)] = Some (Operation (vir_BarrierOp Block) [])
   \<and> ConditionalBarrierHoistingPattern barrierOutsideIf [(0, 0), (0, 2)]
       = (Returns success, barrierOutsideIf)"
proof -
  have h: "hoisted barrierOutsideIf"
    "opAt barrierOutsideIf [(0, 0), (0, 2)] = Some (Operation (vir_BarrierOp Block) [])"
    by (simp_all add: barrierOutsideIf_def isConditional_def)
  from hoisting_idempotent [OF h] h show ?thesis
    by simp
qed

end
